theory Spec2Isabelle
  imports Main "HOL-Library.Word"
begin

unbundle bit_operations_syntax

section \<open>WinFuse: protocol encoders (proto.c) and the transact loop (fuse.c)\<close>

subsection \<open>Machine types and platform constants\<close>

type_synonym UINT8 = "8 word"
type_synonym UINT32 = "32 word"
type_synonym UINT64 = "64 word"
type_synonym NTSTATUS = "32 word"

text \<open>\<^verbatim>\<open>NT_SUCCESS(Status)\<close> is \<^verbatim>\<open>((NTSTATUS)(Status)) >= 0\<close> on a signed 32-bit value.\<close>

definition NT_SUCCESS :: "NTSTATUS \<Rightarrow> bool" where
  "NT_SUCCESS s = (0 \<le> sint s)"

definition STATUS_SUCCESS :: NTSTATUS where "STATUS_SUCCESS = 0"
definition STATUS_TIMEOUT :: NTSTATUS where "STATUS_TIMEOUT = 0x00000102"
definition STATUS_INVALID_PARAMETER :: NTSTATUS where "STATUS_INVALID_PARAMETER = 0xC000000D"
definition STATUS_ACCESS_DENIED :: NTSTATUS where "STATUS_ACCESS_DENIED = 0xC0000022"
definition STATUS_BUFFER_TOO_SMALL :: NTSTATUS where "STATUS_BUFFER_TOO_SMALL = 0xC0000023"
definition STATUS_THREAD_IS_TERMINATING :: NTSTATUS where "STATUS_THREAD_IS_TERMINATING = 0xC000004B"
definition STATUS_CANCELLED :: NTSTATUS where "STATUS_CANCELLED = 0xC0000120"

definition FILE_READ_DATA :: UINT32 where "FILE_READ_DATA = 0x0001"
definition FILE_WRITE_DATA :: UINT32 where "FILE_WRITE_DATA = 0x0002"

definition FILE_ATTRIBUTE_DIRECTORY :: UINT32 where "FILE_ATTRIBUTE_DIRECTORY = 0x00000010"
definition FILE_ATTRIBUTE_REPARSE_POINT :: UINT32 where "FILE_ATTRIBUTE_REPARSE_POINT = 0x00000400"
definition IO_REPARSE_TAG_NFS :: UINT32 where "IO_REPARSE_TAG_NFS = 0x80000014"
definition IO_REPARSE_TAG_SYMLINK :: UINT32 where "IO_REPARSE_TAG_SYMLINK = 0xA000000C"

text \<open>FUSE opcodes (the numbering of the FUSE wire protocol).\<close>

definition FUSE_PROTO_OPCODE_LOOKUP :: UINT32 where "FUSE_PROTO_OPCODE_LOOKUP = 1"
definition FUSE_PROTO_OPCODE_FORGET :: UINT32 where "FUSE_PROTO_OPCODE_FORGET = 2"
definition FUSE_PROTO_OPCODE_GETATTR :: UINT32 where "FUSE_PROTO_OPCODE_GETATTR = 3"
definition FUSE_PROTO_OPCODE_OPEN :: UINT32 where "FUSE_PROTO_OPCODE_OPEN = 14"
definition FUSE_PROTO_OPCODE_INIT :: UINT32 where "FUSE_PROTO_OPCODE_INIT = 26"
definition FUSE_PROTO_OPCODE_OPENDIR :: UINT32 where "FUSE_PROTO_OPCODE_OPENDIR = 27"
definition FUSE_PROTO_OPCODE_BATCH_FORGET :: UINT32 where "FUSE_PROTO_OPCODE_BATCH_FORGET = 42"

text \<open>
  The sizes that \<^verbatim>\<open>winfuse/driver.h\<close> and the protocol header declare are not part of the
  two source files; they are parameters of every definition below.  \<open>REQ_SIZE_x\<close> stands
  for \<^verbatim>\<open>FUSE_PROTO_REQ_SIZE(x)\<close>, \<open>SIZEOF_FORGET_ONE\<close> for
  \<^verbatim>\<open>sizeof(FUSE_PROTO_FORGET_ONE)\<close>, and \<open>PROTO_VERSION\<close>, \<open>PROTO_MINOR_VERSION\<close> for
  \<^verbatim>\<open>FUSE_PROTO_VERSION\<close> and \<^verbatim>\<open>FUSE_PROTO_MINOR_VERSION\<close>.
\<close>

record proto_consts =
  REQ_HEADER_SIZE :: nat
  RSP_HEADER_SIZE :: nat
  REQ_SIZEMIN :: nat
  REQ_SIZE_init :: nat
  REQ_SIZE_lookup :: nat
  REQ_SIZE_forget :: nat
  REQ_SIZE_batch_forget :: nat
  REQ_SIZE_getattr :: nat
  REQ_SIZE_open :: nat
  SIZEOF_FORGET_ONE :: nat
  PROTO_VERSION :: UINT32
  PROTO_MINOR_VERSION :: UINT32

text \<open>The values of the FUSE 7.x wire format, used where a concrete instance is evaluated.\<close>

definition fuse_consts :: proto_consts where
  "fuse_consts = \<lparr> REQ_HEADER_SIZE = 40, RSP_HEADER_SIZE = 16, REQ_SIZEMIN = 8192,
     REQ_SIZE_init = 56, REQ_SIZE_lookup = 40, REQ_SIZE_forget = 48,
     REQ_SIZE_batch_forget = 48, REQ_SIZE_getattr = 56, REQ_SIZE_open = 48,
     SIZEOF_FORGET_ONE = 16, PROTO_VERSION = 7, PROTO_MINOR_VERSION = 29 \<rparr>"

subsection \<open>Wire messages\<close>

text \<open>
  The request is a header followed by a union \<^verbatim>\<open>req\<close> of per-opcode payloads.  The union
  is a datatype: writing a member of \<^verbatim>\<open>req.init\<close>, \<^verbatim>\<open>req.lookup\<close>, ... selects the
  alternative.  \<open>Req_raw\<close> is a payload nothing has written yet.
\<close>

datatype req_payload =
    Req_raw
  | Req_init UINT32 UINT32 UINT32 UINT32
  | Req_lookup "UINT8 list"
  | Req_forget UINT64
  | Req_batch_forget UINT32 "(UINT64 \<times> UINT64) list"
  | Req_open UINT32

record FUSE_PROTO_REQ =
  len :: UINT32
  opcode :: UINT32
  unique :: UINT64
  nodeid :: UINT64
  uid :: UINT32
  gid :: UINT32
  pid :: UINT32
  req :: req_payload

record FUSE_PROTO_RSP =
  rsp_len :: UINT32
  rsp_error :: UINT32
  rsp_unique :: UINT64


subsection \<open>Host records and the operation context\<close>

text \<open>Faults of the C code, made explicit: a failed \<^verbatim>\<open>ASSERT\<close>, a dereferenced null
  pointer, a read past the end of a buffer and a division by zero are results of the model.\<close>

datatype fault = AssertFailed | NullPointer | OutOfBounds | DivideByZero

text \<open>A counted string (\<^verbatim>\<open>Context->Lookup.Name\<close>): a length in bytes and the buffer.\<close>

record NAME_STRING =
  Length :: nat
  Buffer :: "UINT8 list"

record FSP_FSCTL_TRANSACT_REQ =
  Req_Kind :: UINT32
  Req_Hint :: UINT64

record FSP_FSCTL_TRANSACT_RSP =
  Rsp_Size :: nat
  Rsp_Kind :: UINT32
  Rsp_Hint :: UINT64
  Rsp_Status :: NTSTATUS

text \<open>
  Modelled from the spec: the coroutine macros \<^verbatim>\<open>coro_block\<close>, \<^verbatim>\<open>coro_yield\<close> and
  \<^verbatim>\<open>coro_break\<close> are not in the two source files.  The context stores a resume label:
  a routine entered at \<open>CoroEntry\<close> runs up to its \<^verbatim>\<open>coro_yield\<close> and stores
  \<open>CoroYield 1\<close>; entered there it runs the rest, and \<^verbatim>\<open>coro_break\<close> stores \<open>CoroExit\<close>.
\<close>

datatype coro_state = CoroEntry | CoroYield nat | CoroExit

record FUSE_CONTEXT =
  InternalRequest :: "FSP_FSCTL_TRANSACT_REQ option"
  InternalResponse :: FSP_FSCTL_TRANSACT_RSP
  FuseRequest :: "FUSE_PROTO_REQ option"
  FuseResponse :: "FUSE_PROTO_RSP option"
  CoroState :: coro_state
  Ino :: UINT64
  OrigUid :: UINT32
  OrigGid :: UINT32
  OrigPid :: UINT32
  Lookup_Name :: NAME_STRING
  Lookup_GrantedAccess :: UINT32
  Forget_ForgetList :: "UINT64 list"

subsection \<open>proto.c: the fill routines\<close>

text \<open>
  \<^verbatim>\<open>FuseProtoInitRequest\<close>.  The first argument is the pointer \<^verbatim>\<open>Context\<close> itself, a word
  of the pointer width \<^verbatim>\<open>UINT_PTR\<close>; \<^verbatim>\<open>(UINT64)(UINT_PTR)Context\<close> zero-extends it.
\<close>

definition FuseProtoInitRequest ::
  "'p::len word \<Rightarrow> FUSE_CONTEXT \<Rightarrow> UINT32 \<Rightarrow> UINT32 \<Rightarrow> UINT64 \<Rightarrow> FUSE_PROTO_REQ \<Rightarrow> FUSE_PROTO_REQ" where
  "FuseProtoInitRequest Context c l opc nid r =
     r\<lparr> len := l, opcode := opc, unique := ucast Context, nodeid := nid,
        uid := OrigUid c, gid := OrigGid c, pid := OrigPid c \<rparr>"

text \<open>The tail every send routine shares after its \<^verbatim>\<open>coro_yield\<close>: a non-zero error of the
  response becomes the status of the internal response.  \<open>errno\<close> is \<^verbatim>\<open>FuseNtStatusFromErrno\<close>.\<close>

definition send_resume :: "(UINT32 \<Rightarrow> NTSTATUS) \<Rightarrow> FUSE_CONTEXT \<Rightarrow> fault + FUSE_CONTEXT" where
  "send_resume errno c =
     (case FuseResponse c of
        None \<Rightarrow> Inl NullPointer
      | Some rsp \<Rightarrow>
          Inr ((if rsp_error rsp \<noteq> 0
                then c\<lparr> InternalResponse := (InternalResponse c)\<lparr> Rsp_Status := errno (rsp_error rsp) \<rparr> \<rparr>
                else c) \<lparr> CoroState := CoroExit \<rparr>))"

definition FuseProtoSendInit ::
  "proto_consts \<Rightarrow> (UINT32 \<Rightarrow> NTSTATUS) \<Rightarrow> 'p::len word \<Rightarrow> FUSE_CONTEXT \<Rightarrow> fault + FUSE_CONTEXT" where
  "FuseProtoSendInit K errno Context c =
     (case CoroState c of
        CoroEntry \<Rightarrow>
          (case FuseRequest c of
             None \<Rightarrow> Inl NullPointer
           | Some r \<Rightarrow>
               let r1 = FuseProtoInitRequest Context c
                          (of_nat (REQ_SIZE_init K)) FUSE_PROTO_OPCODE_INIT 0 r;
                   r2 = r1\<lparr> req := Req_init (PROTO_VERSION K) (PROTO_MINOR_VERSION K) 0 0 \<rparr>
               in Inr (c\<lparr> FuseRequest := Some r2, CoroState := CoroYield 1 \<rparr>))
      | CoroYield _ \<Rightarrow> send_resume errno c
      | CoroExit \<Rightarrow> Inr c)"

definition FuseProtoSendLookup ::
  "proto_consts \<Rightarrow> (UINT32 \<Rightarrow> NTSTATUS) \<Rightarrow> 'p::len word \<Rightarrow> FUSE_CONTEXT \<Rightarrow> fault + FUSE_CONTEXT" where
  "FuseProtoSendLookup K errno Context c =
     (case CoroState c of
        CoroEntry \<Rightarrow>
          (case FuseRequest c of
             None \<Rightarrow> Inl NullPointer
           | Some r \<Rightarrow>
               let n = Lookup_Name c;
                   r1 = FuseProtoInitRequest Context c
                          (of_nat (REQ_SIZE_lookup K + Length n + 1))
                          FUSE_PROTO_OPCODE_LOOKUP (Ino c) r
               in if \<not> (REQ_SIZEMIN K \<ge> unat (len r1)) then Inl AssertFailed
                  else if length (Buffer n) < Length n then Inl OutOfBounds
                  else Inr (c\<lparr> FuseRequest :=
                                   Some (r1\<lparr> req := Req_lookup (take (Length n) (Buffer n) @ [0]) \<rparr>),
                                 CoroState := CoroYield 1 \<rparr>))
      | CoroYield _ \<Rightarrow> send_resume errno c
      | CoroExit \<Rightarrow> Inr c)"

text \<open>
  Modelled from the spec: \<^verbatim>\<open>FuseCacheForgetNextItem\<close> (cache.c is not among the source
  files) is the spec's \<open>ForgetNextItem(list) \<rightarrow> (inode|empty)\<close>: it takes the next
  entry off the forget list and yields its inode, or reports the list empty.
\<close>

definition FuseCacheForgetNextItem :: "UINT64 list \<Rightarrow> (UINT64 \<times> UINT64 list) option" where
  "FuseCacheForgetNextItem fl = (case fl of [] \<Rightarrow> None | i # rest \<Rightarrow> Some (i, rest))"

definition FuseProtoFillForget ::
  "proto_consts \<Rightarrow> 'p::len word \<Rightarrow> FUSE_CONTEXT \<Rightarrow> fault + FUSE_CONTEXT" where
  "FuseProtoFillForget K Context c =
     (case FuseCacheForgetNextItem (Forget_ForgetList c) of
        None \<Rightarrow> Inl AssertFailed
      | Some (i, rest) \<Rightarrow>
          (case FuseRequest c of
             None \<Rightarrow> Inl NullPointer
           | Some r \<Rightarrow>
               let r1 = FuseProtoInitRequest Context c
                          (of_nat (REQ_SIZE_forget K)) FUSE_PROTO_OPCODE_FORGET i r
               in Inr (c\<lparr> Forget_ForgetList := rest,
                          FuseRequest := Some (r1\<lparr> req := Req_forget 1 \<rparr>) \<rparr>)))"

text \<open>
  The loop of \<^verbatim>\<open>FuseProtoFillBatchForget\<close>.  \<open>P\<close> counts elements from \<^verbatim>\<open>StartP\<close>
  (\<^verbatim>\<open>P++\<close> advances by one \<^verbatim>\<open>FUSE_PROTO_FORGET_ONE\<close>); \<open>gap\<close> is the byte distance
  \<^verbatim>\<open>EndP - StartP\<close> and \<open>sz\<close> the element size, so \<^verbatim>\<open>EndP > P\<close> is \<open>gap > P * sz\<close>.
  The result is the final \<open>P\<close>, the remaining forget list and the tuples written.
\<close>

function batch_forget_loop ::
  "nat \<Rightarrow> nat \<Rightarrow> nat \<Rightarrow> UINT64 list \<Rightarrow> (UINT64 \<times> UINT64) list
     \<Rightarrow> nat \<times> UINT64 list \<times> (UINT64 \<times> UINT64) list" where
  "batch_forget_loop gap sz P fl out =
     (if gap > P * sz then
        (case FuseCacheForgetNextItem fl of
           None \<Rightarrow> (P, fl, out)
         | Some (i, rest) \<Rightarrow> batch_forget_loop gap sz (P + 1) rest (out @ [(i, 1)]))
      else (P, fl, out))"
  by pat_completeness auto
termination
  by (relation "measure (\<lambda>(gap, sz, P, fl, out). length fl)")
     (auto simp: FuseCacheForgetNextItem_def split: list.splits)

declare batch_forget_loop.simps [simp del]

definition FuseProtoFillBatchForget ::
  "proto_consts \<Rightarrow> 'p::len word \<Rightarrow> FUSE_CONTEXT \<Rightarrow> fault + FUSE_CONTEXT" where
  "FuseProtoFillBatchForget K Context c =
     (case FuseRequest c of
        None \<Rightarrow> Inl NullPointer
      | Some r \<Rightarrow>
          (case batch_forget_loop (REQ_SIZEMIN K - REQ_SIZE_batch_forget K) (SIZEOF_FORGET_ONE K)
                  0 (Forget_ForgetList c) [] of
             (P, rest, out) \<Rightarrow>
               let r1 = FuseProtoInitRequest Context c
                          (of_nat (REQ_SIZE_batch_forget K + P * SIZEOF_FORGET_ONE K))
                          FUSE_PROTO_OPCODE_BATCH_FORGET 0 r
               in if \<not> (REQ_SIZEMIN K \<ge> unat (len r1)) then Inl AssertFailed
                  else Inr (c\<lparr> Forget_ForgetList := rest,
                             FuseRequest := Some (r1\<lparr> req := Req_batch_forget (of_nat P) out \<rparr>) \<rparr>)))"

definition FuseProtoSendGetattr ::
  "proto_consts \<Rightarrow> (UINT32 \<Rightarrow> NTSTATUS) \<Rightarrow> 'p::len word \<Rightarrow> FUSE_CONTEXT \<Rightarrow> fault + FUSE_CONTEXT" where
  "FuseProtoSendGetattr K errno Context c =
     (case CoroState c of
        CoroEntry \<Rightarrow>
          (case FuseRequest c of
             None \<Rightarrow> Inl NullPointer
           | Some r \<Rightarrow>
               let r1 = FuseProtoInitRequest Context c
                          (of_nat (REQ_SIZE_getattr K)) FUSE_PROTO_OPCODE_GETATTR (Ino c) r
               in Inr (c\<lparr> FuseRequest := Some r1, CoroState := CoroYield 1 \<rparr>))
      | CoroYield _ \<Rightarrow> send_resume errno c
      | CoroExit \<Rightarrow> Inr c)"

definition FuseProtoSendCreate :: "'p::len word \<Rightarrow> FUSE_CONTEXT \<Rightarrow> fault + FUSE_CONTEXT" where
  "FuseProtoSendCreate Context c =
     (case CoroState c of
        CoroEntry \<Rightarrow> Inr (c\<lparr> CoroState := CoroExit \<rparr>)
      | CoroYield _ \<Rightarrow> Inr (c\<lparr> CoroState := CoroExit \<rparr>)
      | CoroExit \<Rightarrow> Inr c)"

text \<open>The \<^verbatim>\<open>switch\<close> of \<^verbatim>\<open>FuseProtoSendOpen\<close> on the granted access.\<close>

definition open_flags :: "UINT32 \<Rightarrow> UINT32" where
  "open_flags GrantedAccess =
     (let sel = GrantedAccess AND (FILE_READ_DATA OR FILE_WRITE_DATA) in
      if sel = FILE_READ_DATA then 0
      else if sel = FILE_WRITE_DATA then 1
      else if sel = FILE_READ_DATA OR FILE_WRITE_DATA then 2
      else 0)"

definition FuseProtoSendOpen ::
  "proto_consts \<Rightarrow> (UINT32 \<Rightarrow> NTSTATUS) \<Rightarrow> 'p::len word \<Rightarrow> FUSE_CONTEXT \<Rightarrow> fault + FUSE_CONTEXT" where
  "FuseProtoSendOpen K errno Context c =
     (case CoroState c of
        CoroEntry \<Rightarrow>
          (case FuseRequest c of
             None \<Rightarrow> Inl NullPointer
           | Some r \<Rightarrow>
               let r1 = FuseProtoInitRequest Context c
                          (of_nat (REQ_SIZE_open K)) FUSE_PROTO_OPCODE_OPEN (Ino c) r;
                   r2 = r1\<lparr> req := Req_open (open_flags (Lookup_GrantedAccess c)) \<rparr>
               in Inr (c\<lparr> FuseRequest := Some r2, CoroState := CoroYield 1 \<rparr>))
      | CoroYield _ \<Rightarrow> send_resume errno c
      | CoroExit \<Rightarrow> Inr c)"

definition FuseProtoSendOpendir ::
  "proto_consts \<Rightarrow> (UINT32 \<Rightarrow> NTSTATUS) \<Rightarrow> 'p::len word \<Rightarrow> FUSE_CONTEXT \<Rightarrow> fault + FUSE_CONTEXT" where
  "FuseProtoSendOpendir K errno Context c =
     (case CoroState c of
        CoroEntry \<Rightarrow>
          (case FuseRequest c of
             None \<Rightarrow> Inl NullPointer
           | Some r \<Rightarrow>
               let r1 = FuseProtoInitRequest Context c
                          (of_nat (REQ_SIZE_open K)) FUSE_PROTO_OPCODE_OPENDIR (Ino c) r
               in Inr (c\<lparr> FuseRequest := Some r1, CoroState := CoroYield 1 \<rparr>))
      | CoroYield _ \<Rightarrow> send_resume errno c
      | CoroExit \<Rightarrow> Inr c)"

subsection \<open>proto.c: attribute mapping\<close>

record FUSE_PROTO_ATTR =
  attr_ino :: UINT64
  attr_size :: UINT64
  attr_atime :: UINT64
  attr_mtime :: UINT64
  attr_ctime :: UINT64
  attr_atimensec :: UINT32
  attr_mtimensec :: UINT32
  attr_ctimensec :: UINT32
  attr_mode :: UINT32

record FSP_FSCTL_FILE_INFO =
  FileAttributes :: UINT32
  ReparseTag :: UINT32
  AllocationSize :: UINT64
  FileSize :: UINT64
  CreationTime :: UINT64
  LastAccessTime :: UINT64
  LastWriteTime :: UINT64
  ChangeTime :: UINT64
  IndexNumber :: UINT64
  HardLinks :: UINT32
  EaSize :: UINT32

text \<open>The volume parameters: the two 16-bit sector fields and the one-bit flags that
  \<^verbatim>\<open>FuseDeviceInit\<close> forces.\<close>

record FSP_FSCTL_VOLUME_PARAMS =
  SectorSize :: "16 word"
  SectorsPerAllocationUnit :: "16 word"
  CaseSensitiveSearch :: bool
  CasePreservedNames :: bool
  PersistentAcls :: bool
  ReparsePoints :: bool
  ReparsePointsAccessCheck :: bool
  NamedStreams :: bool
  ReadOnlyVolume :: bool
  PostCleanupWhenModifiedOnly :: bool
  PassQueryDirectoryFileName :: bool
  DeviceControl :: bool
  DirectoryMarkerAsNextOffset :: bool

text \<open>The \<^verbatim>\<open>switch (Attr->mode & 0170000)\<close>; the octal case labels are written in hex.\<close>

definition mode_to_attributes :: "UINT32 \<Rightarrow> UINT32 \<times> UINT32" where
  "mode_to_attributes m =
     (let t = m AND 0xF000 in
      if t = 0x4000 then (FILE_ATTRIBUTE_DIRECTORY, 0)
      else if t = 0x1000 \<or> t = 0x2000 \<or> t = 0x6000 \<or> t = 0xC000
        then (FILE_ATTRIBUTE_REPARSE_POINT, IO_REPARSE_TAG_NFS)
      else if t = 0xA000 then (FILE_ATTRIBUTE_REPARSE_POINT, IO_REPARSE_TAG_SYMLINK)
      else (0, 0))"

text \<open>\<^verbatim>\<open>FuseAttrToFileInfo\<close>.  \<open>totime\<close> is \<^verbatim>\<open>FuseUnixTimeToFileTime\<close> (not in the source
  files), as the function from seconds and nanoseconds to the file time it stores.  All
  arithmetic is that of \<^verbatim>\<open>UINT64\<close>; the division traps when the allocation unit is zero.\<close>

definition FuseAttrToFileInfo ::
  "(UINT64 \<Rightarrow> UINT32 \<Rightarrow> UINT64) \<Rightarrow> FSP_FSCTL_VOLUME_PARAMS \<Rightarrow> FUSE_PROTO_ATTR
     \<Rightarrow> fault + FSP_FSCTL_FILE_INFO" where
  "FuseAttrToFileInfo totime VolumeParams Attr =
     (let AllocationUnit = (ucast (SectorSize VolumeParams) :: UINT64) *
                           (ucast (SectorsPerAllocationUnit VolumeParams) :: UINT64);
          (fa, tag) = mode_to_attributes (attr_mode Attr);
          fsize = attr_size Attr
      in if AllocationUnit = 0 then Inl DivideByZero
         else
           let chg = totime (attr_ctime Attr) (attr_ctimensec Attr) in
           Inr \<lparr> FileAttributes = fa, ReparseTag = tag,
                 AllocationSize = (fsize + AllocationUnit - 1) div AllocationUnit * AllocationUnit,
                 FileSize = fsize,
                 CreationTime = chg,
                 LastAccessTime = totime (attr_atime Attr) (attr_atimensec Attr),
                 LastWriteTime = totime (attr_mtime Attr) (attr_mtimensec Attr),
                 ChangeTime = chg,
                 IndexNumber = attr_ino Attr,
                 HardLinks = 0, EaSize = 0 \<rparr>)"


subsection \<open>Concrete instances\<close>

text \<open>Values at which the definitions are evaluated: a stand-in for
  \<^verbatim>\<open>FuseNtStatusFromErrno\<close>, a zeroed request buffer and a context.\<close>

definition sample_errno :: "UINT32 \<Rightarrow> NTSTATUS" where
  "sample_errno e = 0xC0000001"

definition zero_request :: FUSE_PROTO_REQ where
  "zero_request = \<lparr> len = 0, opcode = 0, unique = 0, nodeid = 0, uid = 0, gid = 0, pid = 0,
     req = Req_raw \<rparr>"

definition sample_context :: FUSE_CONTEXT where
  "sample_context = \<lparr> InternalRequest = None,
     InternalResponse = \<lparr> Rsp_Size = 0, Rsp_Kind = 0, Rsp_Hint = 0, Rsp_Status = 0 \<rparr>,
     FuseRequest = Some zero_request, FuseResponse = None, CoroState = CoroEntry,
     Ino = 1, OrigUid = 1000, OrigGid = 1000, OrigPid = 4242,
     Lookup_Name = \<lparr> Length = 3, Buffer = [0x66, 0x6F, 0x6F] \<rparr>,
     Lookup_GrantedAccess = 0x0012019F,
     Forget_ForgetList = [11, 12, 13] \<rparr>"

text \<open>The routines of proto.c that write a request, and the \<^verbatim>\<open>unique\<close> a run of one of
  them leaves in the request buffer.\<close>

definition fill_routines ::
  "proto_consts \<Rightarrow> (UINT32 \<Rightarrow> NTSTATUS) \<Rightarrow> ('p::len word \<Rightarrow> FUSE_CONTEXT \<Rightarrow> fault + FUSE_CONTEXT) list" where
  "fill_routines K errno =
     [FuseProtoSendInit K errno, FuseProtoSendLookup K errno, FuseProtoFillForget K,
      FuseProtoFillBatchForget K, FuseProtoSendGetattr K errno, FuseProtoSendOpen K errno,
      FuseProtoSendOpendir K errno]"

definition stamped_unique :: "fault + FUSE_CONTEXT \<Rightarrow> UINT64 option" where
  "stamped_unique res =
     (case res of Inl _ \<Rightarrow> None
      | Inr c \<Rightarrow> (case FuseRequest c of None \<Rightarrow> None | Some r \<Rightarrow> Some (unique r)))"

text \<open>The allocation unit as a number: sector size times sectors per allocation unit.\<close>

definition allocation_unit :: "FSP_FSCTL_VOLUME_PARAMS \<Rightarrow> nat" where
  "allocation_unit vp = unat (SectorSize vp) * unat (SectorsPerAllocationUnit vp)"

text \<open>A stand-in for \<^verbatim>\<open>FuseUnixTimeToFileTime\<close> (100ns ticks since 1601), volume
  parameters as a host may pass them, and the attributes of a directory of 5000 bytes.\<close>

definition sample_totime :: "UINT64 \<Rightarrow> UINT32 \<Rightarrow> UINT64" where
  "sample_totime s ns = s * 10000000 + ucast ns div 100 + 116444736000000000"

definition sample_volume_params :: FSP_FSCTL_VOLUME_PARAMS where
  "sample_volume_params = \<lparr> SectorSize = 512, SectorsPerAllocationUnit = 8,
     CaseSensitiveSearch = False, CasePreservedNames = False, PersistentAcls = False,
     ReparsePoints = False, ReparsePointsAccessCheck = True, NamedStreams = True,
     ReadOnlyVolume = True, PostCleanupWhenModifiedOnly = False,
     PassQueryDirectoryFileName = False, DeviceControl = False,
     DirectoryMarkerAsNextOffset = False \<rparr>"

definition sample_attr :: FUSE_PROTO_ATTR where
  "sample_attr = \<lparr> attr_ino = 77, attr_size = 5000, attr_atime = 3, attr_mtime = 2,
     attr_ctime = 1, attr_atimensec = 300, attr_mtimensec = 200, attr_ctimensec = 100,
     attr_mode = 0x41ED \<rparr>"

text \<open>The number of forget-one tuples that fit between the batch-forget request size and
  the minimum request size, and the relations between the header's constants that the
  batch encoder relies on: the tuples fill the gap exactly, and every size is a
  \<^verbatim>\<open>UINT32\<close>.\<close>

definition forget_capacity :: "proto_consts \<Rightarrow> nat" where
  "forget_capacity K = (REQ_SIZEMIN K - REQ_SIZE_batch_forget K) div SIZEOF_FORGET_ONE K"

definition wf_consts :: "proto_consts \<Rightarrow> bool" where
  "wf_consts K \<longleftrightarrow>
     REQ_SIZE_batch_forget K \<le> REQ_SIZEMIN K \<and> 0 < SIZEOF_FORGET_ONE K
     \<and> SIZEOF_FORGET_ONE K dvd (REQ_SIZEMIN K - REQ_SIZE_batch_forget K)
     \<and> REQ_SIZEMIN K < 2 ^ 32"


subsection \<open>fuse.c: the state the transact loop works on\<close>

text \<open>Modelled from the spec: \<^verbatim>\<open>FuseContextIsStatus\<close> and \<^verbatim>\<open>FuseContextToStatus\<close>
  are not in the source files; the source tags the pointer, the model uses the tagged
  variant the spec describes.  A context pointer is an address; the value
  \<^verbatim>\<open>FuseContextCreate\<close> stores is a status-only context or a live one.\<close>

type_synonym ctx_ptr = UINT64

datatype context_ref = CtxStatus NTSTATUS | CtxPtr ctx_ptr

text \<open>The calls the loop makes into the IOQ, the contexts and the host, in call order.\<close>

datatype event =
    EvIoqEndProcessing UINT64
  | EvIoqPostPending ctx_ptr
  | EvIoqNextPending
  | EvIoqStartProcessing ctx_ptr
  | EvContextProcess ctx_ptr
  | EvContextCreate
  | EvContextDelete ctx_ptr
  | EvProviderSend FSP_FSCTL_TRANSACT_RSP
  | EvProviderPull
  | EvWaitInitEvent
  | EvFreeExternal

record FUSE_IOQ =
  Pending :: "ctx_ptr list"
  Processing :: "UINT64 \<rightharpoonup> ctx_ptr"

text \<open>The instance (\<open>Ioq\<close>, \<open>Cache\<close>, \<open>VersionMajor\<close>), the contexts allocated,
  the request the output buffer holds, \<^verbatim>\<open>Irp->IoStatus.Information\<close>, and the calls made
  so far.  The cache is a type parameter: the loop itself never looks into it.\<close>

record 'c fuse_state =
  Ioq :: FUSE_IOQ
  Cache :: 'c
  VersionMajor :: UINT32
  Contexts :: "ctx_ptr \<rightharpoonup> FUSE_CONTEXT"
  OutBuffer :: FUSE_PROTO_REQ
  Information :: UINT64
  Trace :: "event list"

text \<open>
  What the loop calls and the two source files do not define, as parameters:
  \<^verbatim>\<open>FuseContextProcess\<close> (given the context, the response or null, and the output buffer
  length when the request pointer is not null; it returns \<^verbatim>\<open>Continue\<close>),
  \<^verbatim>\<open>FuseContextCreate\<close>, the two forms of \<^verbatim>\<open>FspFsextProviderTransact\<close> (forwarding a
  response; pulling a request, with the status and the request it stores), the result of
  \<^verbatim>\<open>FsRtlCancellableWaitForSingleObject\<close> on the init event together with the version
  major the instance holds after the wait, and \<^verbatim>\<open>sizeof InternalResponse\<close>.
\<close>

record 'c host =
  ContextProcess ::
    "ctx_ptr \<Rightarrow> FUSE_PROTO_RSP option \<Rightarrow> UINT32 option \<Rightarrow> 'c fuse_state \<Rightarrow> fault + bool \<times> 'c fuse_state"
  ContextCreate :: "FSP_FSCTL_TRANSACT_REQ \<Rightarrow> 'c fuse_state \<Rightarrow> context_ref \<times> 'c fuse_state"
  ProviderSend :: "FSP_FSCTL_TRANSACT_RSP \<Rightarrow> NTSTATUS"
  ProviderPull :: "NTSTATUS \<times> FSP_FSCTL_TRANSACT_REQ option"
  WaitInitEvent :: "NTSTATUS \<times> UINT32"
  SizeofInternalResponse :: nat

definition FspFsctlTransactReservedKind :: UINT32 where
  "FspFsctlTransactReservedKind = 0"

definition log_event :: "event \<Rightarrow> 'c fuse_state \<Rightarrow> 'c fuse_state" where
  "log_event e st = st\<lparr> Trace := Trace st @ [e] \<rparr>"

text \<open>
  Modelled from the spec: the four IOQ operations (ioq.c is not among the source files).
  \<open>PostPending\<close> appends to the pending FIFO; \<open>NextPending\<close> pops its head or
  yields null; \<open>StartProcessing\<close> inserts into the processing map under the context's
  unique (its address); \<open>EndProcessing\<close> removes and returns the context with that
  unique, or null.
\<close>

definition FuseIoqPostPending :: "ctx_ptr \<Rightarrow> 'c fuse_state \<Rightarrow> 'c fuse_state" where
  "FuseIoqPostPending Context st =
     log_event (EvIoqPostPending Context)
       (st\<lparr> Ioq := (Ioq st)\<lparr> Pending := Pending (Ioq st) @ [Context] \<rparr> \<rparr>)"

definition FuseIoqNextPending :: "'c fuse_state \<Rightarrow> ctx_ptr option \<times> 'c fuse_state" where
  "FuseIoqNextPending st =
     (case Pending (Ioq st) of
        [] \<Rightarrow> (None, log_event EvIoqNextPending st)
      | Context # rest \<Rightarrow>
          (Some Context, log_event EvIoqNextPending (st\<lparr> Ioq := (Ioq st)\<lparr> Pending := rest \<rparr> \<rparr>)))"

definition FuseIoqStartProcessing :: "ctx_ptr \<Rightarrow> 'c fuse_state \<Rightarrow> 'c fuse_state" where
  "FuseIoqStartProcessing Context st =
     log_event (EvIoqStartProcessing Context)
       (st\<lparr> Ioq := (Ioq st)\<lparr> Processing := (Processing (Ioq st))(Context \<mapsto> Context) \<rparr> \<rparr>)"

definition FuseIoqEndProcessing :: "UINT64 \<Rightarrow> 'c fuse_state \<Rightarrow> ctx_ptr option \<times> 'c fuse_state" where
  "FuseIoqEndProcessing u st =
     (Processing (Ioq st) u,
      log_event (EvIoqEndProcessing u)
        (st\<lparr> Ioq := (Ioq st)\<lparr> Processing := (Processing (Ioq st))(u := None) \<rparr> \<rparr>))"

text \<open>Modelled from the spec: \<^verbatim>\<open>FuseContextDelete\<close> destroys the context.\<close>

definition FuseContextDelete :: "ctx_ptr \<Rightarrow> 'c fuse_state \<Rightarrow> 'c fuse_state" where
  "FuseContextDelete Context st =
     log_event (EvContextDelete Context) (st\<lparr> Contexts := (Contexts st)(Context := None) \<rparr>)"

subsection \<open>fuse.c: \<^verbatim>\<open>FuseDeviceTransact\<close>\<close>

text \<open>The part of the IRP the function reads: the two buffer lengths and the system buffer
  read as a response.\<close>

record IRP =
  InputBufferLength :: UINT32
  OutputBufferLength :: UINT32
  SystemBuffer :: FUSE_PROTO_RSP

text \<open>Lines 154-170, \<^verbatim>\<open>/* check parameters */\<close>: the status returned at once, if any.\<close>

definition check_parameters :: "proto_consts \<Rightarrow> IRP \<Rightarrow> NTSTATUS option" where
  "check_parameters K Irp =
     (if InputBufferLength Irp \<noteq> 0 \<and>
         (RSP_HEADER_SIZE K > unat (InputBufferLength Irp) \<or>
          RSP_HEADER_SIZE K > unat (rsp_len (SystemBuffer Irp)) \<or>
          unat (rsp_len (SystemBuffer Irp)) > unat (InputBufferLength Irp))
      then Some STATUS_INVALID_PARAMETER
      else if OutputBufferLength Irp \<noteq> 0 \<and> REQ_SIZEMIN K > unat (OutputBufferLength Irp)
      then Some STATUS_BUFFER_TOO_SMALL
      else None)"

text \<open>Lines 179-201, the response half.  The result is the status of a \<^verbatim>\<open>goto exit\<close>, or
  \<open>None\<close> when control reaches the label \<^verbatim>\<open>request\<close>.\<close>

definition response_half ::
  "'c host \<Rightarrow> FUSE_PROTO_RSP \<Rightarrow> 'c fuse_state \<Rightarrow> fault + NTSTATUS option \<times> 'c fuse_state" where
  "response_half H Response st =
     (case FuseIoqEndProcessing (rsp_unique Response) st of
        (None, st1) \<Rightarrow> Inr (None, st1)
      | (Some Context, st1) \<Rightarrow>
          (case ContextProcess H Context (Some Response) None
                  (log_event (EvContextProcess Context) st1) of
             Inl f \<Rightarrow> Inl f
           | Inr (Continue, st2) \<Rightarrow>
               if Continue then Inr (None, FuseIoqPostPending Context st2)
               else
                 (case Contexts st2 Context of
                    None \<Rightarrow> Inl NullPointer
                  | Some c \<Rightarrow>
                      (case InternalRequest c of
                         None \<Rightarrow> Inr (None, FuseContextDelete Context st2)
                       | Some _ \<Rightarrow>
                           if Rsp_Kind (InternalResponse c) = FspFsctlTransactReservedKind
                           then Inl AssertFailed
                           else
                             let Result = ProviderSend H (InternalResponse c);
                                 st3 = FuseContextDelete Context
                                         (log_event (EvProviderSend (InternalResponse c)) st2)
                             in Inr (if \<not> NT_SUCCESS Result then Some Result else None, st3)))))"

text \<open>Lines 212-225: the version major the request half acts on when nothing is pending, or
  the status it exits with after the wait on the init event.\<close>

definition wait_for_init ::
  "'c host \<Rightarrow> 'c fuse_state \<Rightarrow> fault + (NTSTATUS + UINT32) \<times> 'c fuse_state" where
  "wait_for_init H st =
     (if VersionMajor st = 0 then
        let Result0 = fst (WaitInitEvent H);
            Result = (if Result0 = STATUS_TIMEOUT \<or> Result0 = STATUS_THREAD_IS_TERMINATING
                      then STATUS_CANCELLED else Result0);
            st1 = log_event EvWaitInitEvent st
        in if \<not> NT_SUCCESS Result then Inr (Inl Result, st1)
           else if Result \<noteq> STATUS_SUCCESS then Inl AssertFailed
           else Inr (Inr (snd (WaitInitEvent H)), st1\<lparr> VersionMajor := snd (WaitInitEvent H) \<rparr>)
      else Inr (Inr (VersionMajor st), st))"

text \<open>Lines 209-259: how the request half comes by a context.  \<open>GotoExit\<close> is a
  \<^verbatim>\<open>goto exit\<close> with the status and the local \<^verbatim>\<open>InternalRequest\<close>; \<open>Dispatch\<close> carries
  \<^verbatim>\<open>Context\<close>, \<^verbatim>\<open>Continue\<close> and the local \<^verbatim>\<open>InternalRequest\<close> on to line 261.\<close>

datatype acquired =
    GotoExit NTSTATUS "FSP_FSCTL_TRANSACT_REQ option"
  | Dispatch context_ref bool "FSP_FSCTL_TRANSACT_REQ option"

definition acquire_context ::
  "'c host \<Rightarrow> UINT32 \<Rightarrow> 'c fuse_state \<Rightarrow> fault + acquired \<times> 'c fuse_state" where
  "acquire_context H OutLen st =
     (case FuseIoqNextPending st of
        (Some Context, st1) \<Rightarrow>
          (case ContextProcess H Context None (Some OutLen)
                  (log_event (EvContextProcess Context) st1) of
             Inl f \<Rightarrow> Inl f
           | Inr (Continue, st2) \<Rightarrow> Inr (Dispatch (CtxPtr Context) Continue None, st2))
      | (None, st1) \<Rightarrow>
          (case wait_for_init H st1 of
             Inl f \<Rightarrow> Inl f
           | Inr (Inl Result, st2) \<Rightarrow> Inr (GotoExit Result None, st2)
           | Inr (Inr Version, st2) \<Rightarrow>
               if Version = - 1 then Inr (GotoExit STATUS_ACCESS_DENIED None, st2)
               else
                 let Result = fst (ProviderPull H);
                     InternalRequest0 = snd (ProviderPull H);
                     st3 = log_event EvProviderPull st2
                 in if \<not> NT_SUCCESS Result then Inr (GotoExit Result InternalRequest0, st3)
                    else
                      (case InternalRequest0 of
                         None \<Rightarrow> Inr (GotoExit STATUS_SUCCESS None, st3\<lparr> Information := 0 \<rparr>)
                       | Some ir \<Rightarrow>
                           if Req_Kind ir = FspFsctlTransactReservedKind then Inl AssertFailed
                           else
                             (case ContextCreate H ir (log_event EvContextCreate st3) of
                                (CtxStatus s, st4) \<Rightarrow>
                                  Inr (Dispatch (CtxStatus s) False (Some ir), st4)
                              | (CtxPtr p, st4) \<Rightarrow>
                                  (case ContextProcess H p None (Some OutLen)
                                          (log_event (EvContextProcess p) st4) of
                                     Inl f \<Rightarrow> Inl f
                                   | Inr (Continue, st5) \<Rightarrow>
                                       Inr (Dispatch (CtxPtr p) Continue None, st5))))))"

text \<open>Lines 261-299: what happens to the context after its resume.  The result is the
  status of a \<^verbatim>\<open>goto exit\<close>, or \<open>None\<close> when control reaches line 301.\<close>

definition dispatch ::
  "'c host \<Rightarrow> context_ref \<Rightarrow> bool \<Rightarrow> FSP_FSCTL_TRANSACT_REQ option \<Rightarrow> 'c fuse_state
     \<Rightarrow> fault + NTSTATUS option \<times> 'c fuse_state" where
  "dispatch H Context Continue InternalRequest0 st =
     (if Continue then
        (case Context of
           CtxStatus _ \<Rightarrow> Inl AssertFailed
         | CtxPtr p \<Rightarrow> Inr (None, FuseIoqStartProcessing p st))
      else
        (case Context of
           CtxStatus s \<Rightarrow>
             (case InternalRequest0 of
                None \<Rightarrow> Inl AssertFailed
              | Some ir \<Rightarrow>
                  let rsp = \<lparr> Rsp_Size = SizeofInternalResponse H, Rsp_Kind = Req_Kind ir,
                              Rsp_Hint = Req_Hint ir, Rsp_Status = s \<rparr>;
                      Result = ProviderSend H rsp;
                      st1 = log_event (EvProviderSend rsp) st
                  in Inr (if \<not> NT_SUCCESS Result then Some Result else None, st1))
         | CtxPtr p \<Rightarrow>
             (case Contexts st p of
                None \<Rightarrow> Inl NullPointer
              | Some c \<Rightarrow>
                  (case InternalRequest c of
                     None \<Rightarrow>
                       if Rsp_Hint (InternalResponse c) = ucast FUSE_PROTO_OPCODE_FORGET \<or>
                          Rsp_Hint (InternalResponse c) = ucast FUSE_PROTO_OPCODE_BATCH_FORGET
                       then
                         (if Forget_ForgetList c \<noteq> [] then Inr (None, FuseIoqPostPending p st)
                          else Inr (None, FuseContextDelete p st))
                       else Inr (None, st)
                   | Some _ \<Rightarrow>
                       let Result = ProviderSend H (InternalResponse c);
                           st1 = FuseContextDelete p
                                   (log_event (EvProviderSend (InternalResponse c)) st)
                       in Inr (if \<not> NT_SUCCESS Result then Some Result else None, st1)))))"

text \<open>\<^verbatim>\<open>RtlZeroMemory(FuseRequest, FUSE_PROTO_REQ_HEADER_SIZE)\<close> clears the header fields
  (the header size is the size of the seven fields before \<^verbatim>\<open>req\<close>);
  the label \<^verbatim>\<open>exit\<close> frees the local internal request if there is one.\<close>

definition zero_header :: "FUSE_PROTO_REQ \<Rightarrow> FUSE_PROTO_REQ" where
  "zero_header r = r\<lparr> len := 0, opcode := 0, unique := 0, nodeid := 0, uid := 0, gid := 0, pid := 0 \<rparr>"

definition exit_free :: "FSP_FSCTL_TRANSACT_REQ option \<Rightarrow> 'c fuse_state \<Rightarrow> 'c fuse_state" where
  "exit_free InternalRequest0 st =
     (case InternalRequest0 of None \<Rightarrow> st | Some _ \<Rightarrow> log_event EvFreeExternal st)"

text \<open>Lines 203-310, from the label \<^verbatim>\<open>request\<close> to the return.\<close>

definition request_half ::
  "'c host \<Rightarrow> UINT32 \<Rightarrow> 'c fuse_state \<Rightarrow> fault + NTSTATUS \<times> 'c fuse_state" where
  "request_half H OutLen st0 =
     (let st = st0\<lparr> Information := 0 \<rparr> in
      if OutLen = 0 then Inr (STATUS_SUCCESS, st)
      else
        (case acquire_context H OutLen (st\<lparr> OutBuffer := zero_header (OutBuffer st) \<rparr>) of
           Inl f \<Rightarrow> Inl f
         | Inr (GotoExit Result ir, st1) \<Rightarrow> Inr (Result, exit_free ir st1)
         | Inr (Dispatch Context Continue ir, st1) \<Rightarrow>
             (case dispatch H Context Continue ir st1 of
                Inl f \<Rightarrow> Inl f
              | Inr (Some Result, st2) \<Rightarrow> Inr (Result, exit_free ir st2)
              | Inr (None, st2) \<Rightarrow>
                  Inr (STATUS_SUCCESS,
                       exit_free ir (st2\<lparr> Information := ucast (len (OutBuffer st2)) \<rparr>)))))"

text \<open>Lines 172-310, the two half-steps after the parameter check, and the function.\<close>

definition transact_body ::
  "'c host \<Rightarrow> IRP \<Rightarrow> 'c fuse_state \<Rightarrow> fault + NTSTATUS \<times> 'c fuse_state" where
  "transact_body H Irp st =
     (if InputBufferLength Irp \<noteq> 0 then
        (case response_half H (SystemBuffer Irp) st of
           Inl f \<Rightarrow> Inl f
         | Inr (Some Result, st1) \<Rightarrow> Inr (Result, st1)
         | Inr (None, st1) \<Rightarrow> request_half H (OutputBufferLength Irp) st1)
      else request_half H (OutputBufferLength Irp) st)"

definition FuseDeviceTransact ::
  "'c host \<Rightarrow> proto_consts \<Rightarrow> IRP \<Rightarrow> 'c fuse_state \<Rightarrow> fault + NTSTATUS \<times> 'c fuse_state" where
  "FuseDeviceTransact H K Irp st =
     (case check_parameters K Irp of
        Some Result \<Rightarrow> Inr (Result, st)
      | None \<Rightarrow> transact_body H Irp st)"

subsection \<open>The resume of a self-generated forget context\<close>

text \<open>
  Modelled from the spec: what \<^verbatim>\<open>FuseContextProcess\<close> does for a self-generated
  FORGET/BATCH_FORGET context in the request half (the dispatcher is not among the source
  files).  The resume points the context at the output buffer, runs the fill routine once
  (\<open>batch\<close> selects \<^verbatim>\<open>FuseProtoFillBatchForget\<close> or \<^verbatim>\<open>FuseProtoFillForget\<close>)
  and ends the step without awaiting a reply: \<^verbatim>\<open>Continue\<close> is false.
\<close>

definition forget_resume ::
  "proto_consts \<Rightarrow> bool \<Rightarrow> ctx_ptr \<Rightarrow> 'c fuse_state \<Rightarrow> fault + bool \<times> 'c fuse_state" where
  "forget_resume K batch p st =
     (case Contexts st p of
        None \<Rightarrow> Inl NullPointer
      | Some c \<Rightarrow>
          (case (if batch then FuseProtoFillBatchForget K p else FuseProtoFillForget K p)
                  (c\<lparr> FuseRequest := Some (OutBuffer st), FuseResponse := None \<rparr>) of
             Inl f \<Rightarrow> Inl f
           | Inr c' \<Rightarrow>
               Inr (False,
                    st\<lparr> Contexts := (Contexts st)(p \<mapsto> c'),
                        OutBuffer := (case FuseRequest c' of Some r \<Rightarrow> r | None \<Rightarrow> OutBuffer st) \<rparr>)))"

subsection \<open>Concrete instances for the transact loop\<close>

text \<open>A host whose provider has no request to hand out and whose init wait times out; an
  instance with nothing pending; and IRPs given by input length, output length and the
  \<^verbatim>\<open>len\<close> field of the response in the buffer.\<close>

definition sample_host :: "bool \<Rightarrow> unit host" where
  "sample_host batch =
     \<lparr> ContextProcess = (\<lambda>p rsp out st. forget_resume fuse_consts batch p st),
       ContextCreate = (\<lambda>ir st. (CtxStatus STATUS_INVALID_PARAMETER, st)),
       ProviderSend = (\<lambda>rsp. STATUS_SUCCESS),
       ProviderPull = (STATUS_SUCCESS, None),
       WaitInitEvent = (STATUS_TIMEOUT, 0),
       SizeofInternalResponse = 32 \<rparr>"

definition idle_state :: "UINT32 \<Rightarrow> unit fuse_state" where
  "idle_state v =
     \<lparr> Ioq = \<lparr> Pending = [], Processing = Map.empty \<rparr>, Cache = (), VersionMajor = v,
       Contexts = Map.empty, OutBuffer = zero_request, Information = 5, Trace = [] \<rparr>"

definition sample_irp :: "UINT32 \<Rightarrow> UINT32 \<Rightarrow> UINT32 \<Rightarrow> IRP" where
  "sample_irp inlen outlen rlen =
     \<lparr> InputBufferLength = inlen, OutputBufferLength = outlen,
       SystemBuffer = \<lparr> rsp_len = rlen, rsp_error = 0, rsp_unique = 0xFFFFA00012345680 \<rparr> \<rparr>"

text \<open>The input buffer is empty or passes the three checks of lines 161-163.\<close>

definition input_accepted :: "proto_consts \<Rightarrow> IRP \<Rightarrow> bool" where
  "input_accepted K Irp \<longleftrightarrow>
     InputBufferLength Irp = 0 \<or>
     (RSP_HEADER_SIZE K \<le> unat (InputBufferLength Irp) \<and>
      RSP_HEADER_SIZE K \<le> unat (rsp_len (SystemBuffer Irp)) \<and>
      unat (rsp_len (SystemBuffer Irp)) \<le> unat (InputBufferLength Irp))"

subsection \<open>Draining a forget list\<close>

text \<open>A self-generated forget context \<open>p\<close> with forget list \<open>fl\<close> is the one pending
  context; it is gone from the queue and destroyed; the number of inodes one message takes
  (the batch capacity, or one for single FORGET); successive transact calls on the same IRP;
  and the number of request half-steps for a list of \<open>N\<close> entries: \<open>N\<close> divided by the
  capacity, rounded up, for BATCH_FORGET, and \<open>N\<close> for FORGET.\<close>

definition is_forget_hint :: "FUSE_CONTEXT \<Rightarrow> bool" where
  "is_forget_hint c \<longleftrightarrow>
     Rsp_Hint (InternalResponse c) = ucast FUSE_PROTO_OPCODE_FORGET \<or>
     Rsp_Hint (InternalResponse c) = ucast FUSE_PROTO_OPCODE_BATCH_FORGET"

definition forget_pending :: "ctx_ptr \<Rightarrow> UINT64 list \<Rightarrow> 'c fuse_state \<Rightarrow> bool" where
  "forget_pending p fl st \<longleftrightarrow>
     Pending (Ioq st) = [p] \<and>
     (\<exists>c. Contexts st p = Some c \<and> InternalRequest c = None \<and> is_forget_hint c \<and>
          Forget_ForgetList c = fl)"

definition forget_done :: "ctx_ptr \<Rightarrow> 'c fuse_state \<Rightarrow> bool" where
  "forget_done p st \<longleftrightarrow> Pending (Ioq st) = [] \<and> Contexts st p = None"

definition per_message :: "proto_consts \<Rightarrow> bool \<Rightarrow> nat" where
  "per_message K batch = (if batch then forget_capacity K else 1)"

fun transact_steps ::
  "'c host \<Rightarrow> proto_consts \<Rightarrow> IRP \<Rightarrow> nat \<Rightarrow> 'c fuse_state \<Rightarrow> fault + 'c fuse_state" where
  "transact_steps H K Irp 0 st = Inr st"
| "transact_steps H K Irp (Suc n) st =
     (case FuseDeviceTransact H K Irp st of
        Inl f \<Rightarrow> Inl f
      | Inr (Result, st') \<Rightarrow> transact_steps H K Irp n st')"

definition forget_steps :: "proto_consts \<Rightarrow> bool \<Rightarrow> nat \<Rightarrow> nat" where
  "forget_steps K batch N =
     (if batch then (N + forget_capacity K - 1) div forget_capacity K else N)"

text \<open>An instance whose one pending context is a forget context with three inodes.\<close>

definition forget_context :: FUSE_CONTEXT where
  "forget_context =
     sample_context\<lparr> InternalResponse := \<lparr> Rsp_Size = 32, Rsp_Kind = 0, Rsp_Hint = 2, Rsp_Status = 0 \<rparr>,
                     FuseRequest := None \<rparr>"

definition forget_state :: "unit fuse_state" where
  "forget_state =
     \<lparr> Ioq = \<lparr> Pending = [0xFFFFA00012345680], Processing = Map.empty \<rparr>, Cache = (),
       VersionMajor = 7, Contexts = [0xFFFFA00012345680 \<mapsto> forget_context],
       OutBuffer = zero_request, Information = 0, Trace = [] \<rparr>"

subsection \<open>fuse.c: \<^verbatim>\<open>FuseDeviceInit\<close>\<close>

text \<open>The calls \<^verbatim>\<open>FuseDeviceInit\<close> and \<^verbatim>\<open>FuseProtoPostInit\<close> make, in call order;
  \<open>EvCacheCreate\<close> carries the two arguments passed to \<^verbatim>\<open>FuseCacheCreate\<close>.\<close>

datatype init_event =
    EvIoqCreate
  | EvCacheCreate nat bool
  | EvRwlockInitialize
  | EvInitializeEvent
  | EvFileInstanceInit
  | EvInitContextCreate
  | EvInitPostPending ctx_ptr
  | EvCacheDelete
  | EvIoqDelete

text \<open>The instance as \<^verbatim>\<open>FuseDeviceInit\<close> fills it: the three pointers (null is \<open>None\<close>),
  whether the lock and the file table are initialized, the init event (\<open>Some False\<close> is
  initialized and not signalled), the contexts allocated, and the calls made.\<close>

record 'c FUSE_INSTANCE =
  Inst_VolumeParams :: "FSP_FSCTL_VOLUME_PARAMS option"
  Inst_Ioq :: "FUSE_IOQ option"
  Inst_Cache :: "'c option"
  Inst_OpGuardLock :: bool
  Inst_InitEvent :: "bool option"
  Inst_FileTable :: bool
  Inst_Contexts :: "ctx_ptr \<rightharpoonup> FUSE_CONTEXT"
  Inst_Trace :: "init_event list"

text \<open>
  What the two functions call and the source files do not define, as parameters: the
  status and the pointer \<^verbatim>\<open>FuseIoqCreate\<close> and \<^verbatim>\<open>FuseCacheCreate\<close> store, and what
  \<^verbatim>\<open>FuseContextCreate\<close> yields for the INIT context: a status-only context, or the
  address and content of a live one.
\<close>

record 'c init_host =
  IoqCreate :: "NTSTATUS \<times> FUSE_IOQ option"
  CacheCreate :: "nat \<Rightarrow> bool \<Rightarrow> NTSTATUS \<times> 'c option"
  NewContext :: "NTSTATUS + ctx_ptr \<times> FUSE_CONTEXT"

definition log_init :: "init_event \<Rightarrow> 'c FUSE_INSTANCE \<Rightarrow> 'c FUSE_INSTANCE" where
  "log_init e inst = inst\<lparr> Inst_Trace := Inst_Trace inst @ [e] \<rparr>"

text \<open>Lines 47-58: the eleven assignments to the volume parameters.\<close>

definition force_volume_params :: "FSP_FSCTL_VOLUME_PARAMS \<Rightarrow> FSP_FSCTL_VOLUME_PARAMS" where
  "force_volume_params vp =
     vp\<lparr> CaseSensitiveSearch := True, CasePreservedNames := True, PersistentAcls := True,
         ReparsePoints := True, ReparsePointsAccessCheck := False, NamedStreams := False,
         ReadOnlyVolume := False, PostCleanupWhenModifiedOnly := True,
         PassQueryDirectoryFileName := True, DeviceControl := True,
         DirectoryMarkerAsNextOffset := True \<rparr>"

text \<open>\<^verbatim>\<open>FuseProtoPostInit\<close> (proto.c), on the instance it reaches through its device
  object.\<close>

definition FuseProtoPostInit ::
  "'c init_host \<Rightarrow> 'c FUSE_INSTANCE \<Rightarrow> fault + NTSTATUS \<times> 'c FUSE_INSTANCE" where
  "FuseProtoPostInit H inst =
     (let inst1 = log_init EvInitContextCreate inst in
      case NewContext H of
        Inl s \<Rightarrow> Inr (s, inst1)
      | Inr (p, c) \<Rightarrow>
          let c1 = c\<lparr> InternalResponse :=
                        (InternalResponse c)\<lparr> Rsp_Hint := ucast FUSE_PROTO_OPCODE_INIT \<rparr> \<rparr>
          in case Inst_Ioq inst1 of
               None \<Rightarrow> Inl NullPointer
             | Some q \<Rightarrow>
                 Inr (STATUS_SUCCESS,
                      log_init (EvInitPostPending p)
                        (inst1\<lparr> Inst_Contexts := (Inst_Contexts inst1)(p \<mapsto> c1),
                               Inst_Ioq := Some (q\<lparr> Pending := Pending q @ [p] \<rparr>) \<rparr>)))"

text \<open>Lines 84-89, the label \<^verbatim>\<open>fail\<close>, on the locals \<^verbatim>\<open>Ioq\<close> and \<^verbatim>\<open>Cache\<close>.\<close>

definition init_fail ::
  "FUSE_IOQ option \<Rightarrow> 'c option \<Rightarrow> 'c FUSE_INSTANCE \<Rightarrow> 'c FUSE_INSTANCE" where
  "init_fail Ioq0 Cache0 inst =
     (let inst1 = (if Cache0 \<noteq> None then log_init EvCacheDelete inst else inst)
      in if Ioq0 \<noteq> None then log_init EvIoqDelete inst1 else inst1)"

text \<open>\<^verbatim>\<open>FuseDeviceInit\<close>: the status, the instance and the volume parameters it leaves.
  (Entering and leaving the critical region is not modelled.)\<close>

definition FuseDeviceInit ::
  "'c init_host \<Rightarrow> FSP_FSCTL_VOLUME_PARAMS \<Rightarrow> 'c FUSE_INSTANCE
     \<Rightarrow> fault + NTSTATUS \<times> 'c FUSE_INSTANCE \<times> FSP_FSCTL_VOLUME_PARAMS" where
  "FuseDeviceInit H VolumeParams0 inst =
     (let VolumeParams = force_volume_params VolumeParams0;
          Result1 = fst (IoqCreate H); Ioq0 = snd (IoqCreate H);
          inst1 = log_init EvIoqCreate inst
      in if \<not> NT_SUCCESS Result1 then Inr (Result1, init_fail Ioq0 None inst1, VolumeParams)
         else
           let cc = CacheCreate H 0 (\<not> CaseSensitiveSearch VolumeParams);
               Result2 = fst cc; Cache0 = snd cc;
               inst2 = log_init (EvCacheCreate 0 (\<not> CaseSensitiveSearch VolumeParams)) inst1
           in if \<not> NT_SUCCESS Result2 then Inr (Result2, init_fail Ioq0 Cache0 inst2, VolumeParams)
              else
                let inst3 = log_init EvRwlockInitialize
                              (inst2\<lparr> Inst_VolumeParams := Some VolumeParams,
                                     Inst_OpGuardLock := True \<rparr>);
                    inst4 = log_init EvInitializeEvent
                              (inst3\<lparr> Inst_Ioq := Ioq0, Inst_Cache := Cache0,
                                     Inst_InitEvent := Some False \<rparr>);
                    inst5 = log_init EvFileInstanceInit (inst4\<lparr> Inst_FileTable := True \<rparr>)
                in case FuseProtoPostInit H inst5 of
                     Inl f \<Rightarrow> Inl f
                   | Inr (Result3, inst6) \<Rightarrow>
                       if \<not> NT_SUCCESS Result3
                       then Inr (Result3, init_fail Ioq0 Cache0 inst6, VolumeParams)
                       else Inr (STATUS_SUCCESS, inst6, VolumeParams))"

text \<open>The fixed values of the volume parameters, and concrete instances: an instance before
  init, an empty IOQ, a host on which every step succeeds and one whose INIT context is
  status-only.\<close>

definition volume_params_forced :: "FSP_FSCTL_VOLUME_PARAMS \<Rightarrow> bool" where
  "volume_params_forced vp \<longleftrightarrow>
     CaseSensitiveSearch vp \<and> CasePreservedNames vp \<and> PersistentAcls vp \<and>
     ReparsePoints vp \<and> \<not> ReparsePointsAccessCheck vp \<and> \<not> NamedStreams vp \<and>
     \<not> ReadOnlyVolume vp \<and> PostCleanupWhenModifiedOnly vp \<and>
     PassQueryDirectoryFileName vp \<and> DeviceControl vp \<and> DirectoryMarkerAsNextOffset vp"

definition fresh_instance :: "unit FUSE_INSTANCE" where
  "fresh_instance =
     \<lparr> Inst_VolumeParams = None, Inst_Ioq = None, Inst_Cache = None, Inst_OpGuardLock = False,
       Inst_InitEvent = None, Inst_FileTable = False, Inst_Contexts = Map.empty,
       Inst_Trace = [] \<rparr>"

definition empty_ioq :: FUSE_IOQ where
  "empty_ioq = \<lparr> Pending = [], Processing = Map.empty \<rparr>"

definition init_host_ok :: "unit init_host" where
  "init_host_ok =
     \<lparr> IoqCreate = (STATUS_SUCCESS, Some empty_ioq),
       CacheCreate = (\<lambda>n b. (STATUS_SUCCESS, Some ())),
       NewContext = Inr (0xFFFFA00012345680, sample_context) \<rparr>"

definition init_host_no_context :: "unit init_host" where
  "init_host_no_context = init_host_ok\<lparr> NewContext := Inl 0xC000009A \<rparr>"

text \<open>A host whose provider call fails and stores no request.\<close>

definition failing_provider_host :: "unit host" where
  "failing_provider_host = (sample_host True)\<lparr> ProviderPull := (0xC000009A, None) \<rparr>"

section \<open>Properties\<close>

lemma ucast_ptr_inj:
  fixes p q :: "'p::len word"
  assumes "LENGTH('p) \<le> 64" and "(ucast p :: UINT64) = ucast q"
  shows "p = q"
proof -
  have "is_up (ucast :: 'p word \<Rightarrow> UINT64)" using assms(1) by (simp add: is_up)
  then have "(ucast (ucast p :: UINT64) :: 'p word) = p" "(ucast (ucast q :: UINT64) :: 'p word) = q"
    by (rule ucast_up_ucast_id)+
  with assms(2) show ?thesis by metis
qed

lemma unique_InitRequest [simp]:
  "unique (FuseProtoInitRequest p c l opc nid r) = ucast p"
  by (simp add: FuseProtoInitRequest_def)

lemma stamped_SendInit:
  "CoroState c = CoroEntry \<Longrightarrow> FuseProtoSendInit K errno p c = Inr c'
     \<Longrightarrow> stamped_unique (FuseProtoSendInit K errno p c) = Some (ucast p)"
  by (cases "FuseRequest c") (auto simp: FuseProtoSendInit_def stamped_unique_def Let_def)

lemma stamped_SendLookup:
  "CoroState c = CoroEntry \<Longrightarrow> FuseProtoSendLookup K errno p c = Inr c'
     \<Longrightarrow> stamped_unique (FuseProtoSendLookup K errno p c) = Some (ucast p)"
  by (cases "FuseRequest c")
     (auto simp: FuseProtoSendLookup_def stamped_unique_def Let_def split: if_splits)

lemma stamped_FillForget:
  "FuseProtoFillForget K p c = Inr c'
     \<Longrightarrow> stamped_unique (FuseProtoFillForget K p c) = Some (ucast p)"
  by (cases "FuseRequest c"; cases "FuseCacheForgetNextItem (Forget_ForgetList c)")
     (auto simp: FuseProtoFillForget_def stamped_unique_def Let_def)

lemma stamped_FillBatchForget:
  "FuseProtoFillBatchForget K p c = Inr c'
     \<Longrightarrow> stamped_unique (FuseProtoFillBatchForget K p c) = Some (ucast p)"
  by (cases "FuseRequest c")
     (auto simp: FuseProtoFillBatchForget_def stamped_unique_def Let_def
        split: prod.splits if_splits)

lemma stamped_SendGetattr:
  "CoroState c = CoroEntry \<Longrightarrow> FuseProtoSendGetattr K errno p c = Inr c'
     \<Longrightarrow> stamped_unique (FuseProtoSendGetattr K errno p c) = Some (ucast p)"
  by (cases "FuseRequest c") (auto simp: FuseProtoSendGetattr_def stamped_unique_def Let_def)

lemma stamped_SendOpen:
  "CoroState c = CoroEntry \<Longrightarrow> FuseProtoSendOpen K errno p c = Inr c'
     \<Longrightarrow> stamped_unique (FuseProtoSendOpen K errno p c) = Some (ucast p)"
  by (cases "FuseRequest c") (auto simp: FuseProtoSendOpen_def stamped_unique_def Let_def)

lemma stamped_SendOpendir:
  "CoroState c = CoroEntry \<Longrightarrow> FuseProtoSendOpendir K errno p c = Inr c'
     \<Longrightarrow> stamped_unique (FuseProtoSendOpendir K errno p c) = Some (ucast p)"
  by (cases "FuseRequest c") (auto simp: FuseProtoSendOpendir_def stamped_unique_def Let_def)

lemma stamped_fill:
  assumes "f \<in> set (fill_routines K errno)" and "CoroState c = CoroEntry"
    and "f p c = Inr c'"
  shows "stamped_unique (f p c) = Some (ucast p)"
proof -
  from assms(1) consider
      "f = FuseProtoSendInit K errno" | "f = FuseProtoSendLookup K errno"
    | "f = FuseProtoFillForget K" | "f = FuseProtoFillBatchForget K"
    | "f = FuseProtoSendGetattr K errno" | "f = FuseProtoSendOpen K errno"
    | "f = FuseProtoSendOpendir K errno"
    unfolding fill_routines_def by auto
  then show ?thesis
  proof cases
    case 1 with assms(2,3) show ?thesis using stamped_SendInit [of c K errno p c'] by simp
  next
    case 2 with assms(2,3) show ?thesis using stamped_SendLookup [of c K errno p c'] by simp
  next
    case 3 with assms(3) show ?thesis using stamped_FillForget [of K p c c'] by simp
  next
    case 4 with assms(3) show ?thesis using stamped_FillBatchForget [of K p c c'] by simp
  next
    case 5 with assms(2,3) show ?thesis using stamped_SendGetattr [of c K errno p c'] by simp
  next
    case 6 with assms(2,3) show ?thesis using stamped_SendOpen [of c K errno p c'] by simp
  next
    case 7 with assms(2,3) show ?thesis using stamped_SendOpendir [of c K errno p c'] by simp
  qed
qed

lemma and3_cases: "(x::32 word) AND 3 = 0 \<or> x AND 3 = 1 \<or> x AND 3 = 2 \<or> x AND 3 = 3"
proof -
  have "x AND 3 = take_bit 2 x" by (simp add: take_bit_eq_mask mask_eq_exp_minus_1)
  moreover have "unat (take_bit 2 x) < 4"
  proof -
    have "unat (take_bit 2 x) = take_bit 2 (unat x)" by (simp only: unsigned_take_bit_eq)
    also have "\<dots> = unat x mod 2 ^ 2" by (simp only: take_bit_eq_mod)
    also have "\<dots> < 4" by simp
    finally show ?thesis .
  qed
  ultimately have "unat (x AND 3) < 4" by simp
  then have "unat (x AND 3) = 0 \<or> unat (x AND 3) = 1 \<or> unat (x AND 3) = 2 \<or> unat (x AND 3) = 3" by arith
  then show ?thesis by (simp add: word_unat_eq_iff)
qed

lemma and1_zero_iff: "(x::32 word) AND 1 = 0 \<longleftrightarrow> \<not> bit x 0"
  by (simp add: and_one_eq bit_0 mod_2_eq_odd)

lemma and2_zero_iff: "(x::32 word) AND 2 = 0 \<longleftrightarrow> \<not> bit x (Suc 0)"
  using and_exp_eq_0_iff_not_bit [of x "Suc 0"] by simp

lemma open_flags_bits:
  "open_flags ga = (if \<not> bit ga (Suc 0) then 0 else if bit ga 0 then 2 else 1)"
proof -
  have b0: "bit (ga AND 3) 0 = bit ga 0" by (simp add: bit_simps)
  have b1: "bit (ga AND 3) (Suc 0) = bit ga (Suc 0)" by (simp add: bit_simps)
  show ?thesis
    using and3_cases[of ga] b0 b1
    by (auto simp: open_flags_def FILE_READ_DATA_def FILE_WRITE_DATA_def Let_def)
qed

lemma open_flags_two_bits:
  "open_flags ga =
     (if ga AND FILE_WRITE_DATA = 0 then 0 else if ga AND FILE_READ_DATA = 0 then 1 else 2)"
  by (simp add: open_flags_bits FILE_READ_DATA_def FILE_WRITE_DATA_def and1_zero_iff and2_zero_iff)

lemma open_flags_masked:
  "open_flags (ga AND (FILE_READ_DATA OR FILE_WRITE_DATA)) = open_flags ga"
  by (simp add: open_flags_def Let_def and.assoc)

text \<open>
  C10: at its entry the OPEN send routine writes a request whose open flags are O_RDONLY (0)
  when FILE_WRITE_DATA is not granted (FILE_READ_DATA alone, or neither bit), O_WRONLY (1)
  when FILE_WRITE_DATA is granted without FILE_READ_DATA, and O_RDWR (2) when both are
  granted; the flags are those of the granted access masked to these two bits, so no other
  bit of the granted access affects them.
\<close>

theorem FuseProtoSendOpen_flags:
  assumes "CoroState c = CoroEntry" and "FuseRequest c = Some r"
  shows "\<exists>c' r'. FuseProtoSendOpen K errno Context c = Inr c'
            \<and> FuseRequest c' = Some r'
            \<and> opcode r' = FUSE_PROTO_OPCODE_OPEN
            \<and> req r' = Req_open
                 (if Lookup_GrantedAccess c AND FILE_WRITE_DATA = 0 then 0
                  else if Lookup_GrantedAccess c AND FILE_READ_DATA = 0 then 1 else 2)
            \<and> open_flags (Lookup_GrantedAccess c AND (FILE_READ_DATA OR FILE_WRITE_DATA))
                 = open_flags (Lookup_GrantedAccess c)"
  using assms
  by (simp add: FuseProtoSendOpen_def FuseProtoInitRequest_def Let_def
        open_flags_two_bits [symmetric] open_flags_masked)

theorem FuseProtoSendOpen_flags_witness:
  "CoroState sample_context = CoroEntry \<and> FuseRequest sample_context = Some zero_request
   \<and> (\<exists>c' r'. FuseProtoSendOpen fuse_consts sample_errno (0xFFFFA00012345680 :: 64 word) sample_context
                 = Inr c' \<and> FuseRequest c' = Some r'
            \<and> opcode r' = FUSE_PROTO_OPCODE_OPEN \<and> req r' = Req_open 2)"
proof -
  have h1: "CoroState sample_context = CoroEntry" by (simp add: sample_context_def)
  have h2: "FuseRequest sample_context = Some zero_request" by (simp add: sample_context_def)
  have ga: "Lookup_GrantedAccess sample_context = 0x0012019F" by (simp add: sample_context_def)
  show ?thesis
    using FuseProtoSendOpen_flags [OF h1 h2, of fuse_consts sample_errno "0xFFFFA00012345680 :: 64 word"] h1 h2
    by (auto simp add: ga FILE_READ_DATA_def FILE_WRITE_DATA_def)
qed

lemma unat_ucast_16_64: "unat (ucast (a :: 16 word) :: UINT64) = unat a"
proof -
  have "unat a < 2 ^ 16" using unsigned_less [of a] by simp
  then have "unat a < 2 ^ 64" by simp
  then show ?thesis by (simp add: unsigned_ucast_eq take_bit_nat_eq_self)
qed

lemma unat_AllocationUnit:
  "unat ((ucast (a :: 16 word) :: UINT64) * (ucast (b :: 16 word) :: UINT64)) = unat a * unat b"
proof -
  have a: "unat a < 2 ^ 16" using unsigned_less [of a] by simp
  have b: "unat b < 2 ^ 16" using unsigned_less [of b] by simp
  have "unat a * unat b < 2 ^ 16 * 2 ^ 16"
    using a b by (meson mult_strict_mono' zero_le)
  then have "unat (ucast a :: UINT64) * unat (ucast b :: UINT64) < 2 ^ LENGTH(64)"
    by (simp add: unat_ucast_16_64)
  then have "unat ((ucast a :: UINT64) * ucast b) = unat (ucast a :: UINT64) * unat (ucast b :: UINT64)"
    by (simp only: unat_mult_lem)
  then show ?thesis by (simp add: unat_ucast_16_64)
qed

lemma round_up_word:
  fixes s u :: UINT64
  assumes "0 < unat u" and "unat s + unat u - 1 < 2 ^ 64"
  shows "unat ((s + u - 1) div u * u) = (unat s + unat u - 1) div unat u * unat u"
proof -
  have u1: "1 \<le> u" using assms(1) by (simp add: word_le_nat_alt)
  have um: "unat (u - 1) = unat u - 1" using u1 by (simp add: unat_sub)
  have e: "s + u - 1 = s + (u - 1)" by simp
  have "unat s + unat (u - 1) < 2 ^ LENGTH(64)" using assms um by simp
  then have "unat (s + (u - 1)) = unat s + unat (u - 1)" by (simp only: unat_add_lem)
  then have su: "unat (s + u - 1) = unat s + unat u - 1"
    unfolding e using um assms(1) by simp
  have d: "unat ((s + u - 1) div u) = (unat s + unat u - 1) div unat u"
    by (simp only: unat_div su)
  have le: "(unat s + unat u - 1) div unat u * unat u \<le> unat s + unat u - 1"
    by simp
  have "(unat s + unat u - 1) div unat u * unat u < 2 ^ 64"
    using le assms(2) by (rule le_less_trans)
  then have "unat ((s + u - 1) div u) * unat u < 2 ^ LENGTH(64)"
    unfolding d by simp
  then have "unat ((s + u - 1) div u * u) = unat ((s + u - 1) div u) * unat u"
    by (simp only: unat_mult_lem)
  then show ?thesis by (simp only: d)
qed

lemma round_up_nat:
  fixes s u :: nat
  assumes "0 < u"
  shows "u dvd (s + u - 1) div u * u" and "s \<le> (s + u - 1) div u * u"
    and "(s + u - 1) div u * u < s + u"
proof -
  let ?q = "(s + u - 1) div u"
  show "u dvd ?q * u" by simp
  have m: "?q * u + (s + u - 1) mod u = s + u - 1" by simp
  have r: "(s + u - 1) mod u < u" using assms by simp
  from m r show "s \<le> ?q * u" by linarith
  from m assms show "?q * u < s + u" by linarith
qed

lemma mode_dir: "m AND 0xF000 = 0x4000 \<Longrightarrow> mode_to_attributes m = (FILE_ATTRIBUTE_DIRECTORY, 0)"
  by (simp add: mode_to_attributes_def Let_def)

lemma mode_special:
  "m AND 0xF000 \<in> {0x1000, 0x2000, 0x6000, 0xC000}
     \<Longrightarrow> mode_to_attributes m = (FILE_ATTRIBUTE_REPARSE_POINT, IO_REPARSE_TAG_NFS)"
  by (auto simp add: mode_to_attributes_def Let_def)

lemma mode_symlink:
  "m AND 0xF000 = 0xA000
     \<Longrightarrow> mode_to_attributes m = (FILE_ATTRIBUTE_REPARSE_POINT, IO_REPARSE_TAG_SYMLINK)"
  by (simp add: mode_to_attributes_def Let_def)

lemma mode_other:
  "m AND 0xF000 \<notin> {0x4000, 0x1000, 0x2000, 0x6000, 0xC000, 0xA000}
     \<Longrightarrow> mode_to_attributes m = (0, 0)"
  by (simp add: mode_to_attributes_def Let_def)

text \<open>
  C5 (amended): when the allocation unit (sector size times sectors per allocation unit) is
  not zero and file size + allocation unit - 1 fits in 64 bits, FuseAttrToFileInfo returns
  a file info with: the directory attribute and tag 0 for a directory mode; the
  reparse-point attribute and the NFS tag for FIFO, character-device, block-device and
  socket modes; the reparse-point attribute and the symlink tag for a symlink mode; zero
  attributes and tag 0 for any other mode; the file size copied; an allocation size that is
  the least multiple of the allocation unit not below the file size; access, write and
  change times converted from atime, mtime and ctime, the creation time equal to the change
  time; and the inode as index number.
\<close>

theorem FuseAttrToFileInfo_mapping:
  assumes "0 < allocation_unit VolumeParams"
    and "unat (attr_size Attr) + allocation_unit VolumeParams - 1 < 2 ^ 64"
  shows "\<exists>fi. FuseAttrToFileInfo totime VolumeParams Attr = Inr fi
     \<and> (attr_mode Attr AND 0xF000 = 0x4000 \<longrightarrow>
          FileAttributes fi = FILE_ATTRIBUTE_DIRECTORY \<and> ReparseTag fi = 0)
     \<and> (attr_mode Attr AND 0xF000 \<in> {0x1000, 0x2000, 0x6000, 0xC000} \<longrightarrow>
          FileAttributes fi = FILE_ATTRIBUTE_REPARSE_POINT \<and> ReparseTag fi = IO_REPARSE_TAG_NFS)
     \<and> (attr_mode Attr AND 0xF000 = 0xA000 \<longrightarrow>
          FileAttributes fi = FILE_ATTRIBUTE_REPARSE_POINT \<and> ReparseTag fi = IO_REPARSE_TAG_SYMLINK)
     \<and> (attr_mode Attr AND 0xF000 \<notin> {0x4000, 0x1000, 0x2000, 0x6000, 0xC000, 0xA000} \<longrightarrow>
          FileAttributes fi = 0 \<and> ReparseTag fi = 0)
     \<and> FileSize fi = attr_size Attr
     \<and> allocation_unit VolumeParams dvd unat (AllocationSize fi)
     \<and> unat (attr_size Attr) \<le> unat (AllocationSize fi)
     \<and> unat (AllocationSize fi) < unat (attr_size Attr) + allocation_unit VolumeParams
     \<and> LastAccessTime fi = totime (attr_atime Attr) (attr_atimensec Attr)
     \<and> LastWriteTime fi = totime (attr_mtime Attr) (attr_mtimensec Attr)
     \<and> ChangeTime fi = totime (attr_ctime Attr) (attr_ctimensec Attr)
     \<and> CreationTime fi = ChangeTime fi
     \<and> IndexNumber fi = attr_ino Attr"
proof -
  let ?U = "(ucast (SectorSize VolumeParams) :: UINT64) * ucast (SectorsPerAllocationUnit VolumeParams)"
  let ?au = "allocation_unit VolumeParams"
  have U: "unat ?U = ?au"
    by (simp add: allocation_unit_def unat_AllocationUnit)
  have nz: "?U \<noteq> 0" using assms(1) U by (metis less_numeral_extra(3) unat_0)
  obtain fa tag where mt: "mode_to_attributes (attr_mode Attr) = (fa, tag)" by fastforce
  let ?A = "(attr_size Attr + ?U - 1) div ?U * ?U"
  let ?fi = "\<lparr> FileAttributes = fa, ReparseTag = tag, AllocationSize = ?A,
                 FileSize = attr_size Attr,
                 CreationTime = totime (attr_ctime Attr) (attr_ctimensec Attr),
                 LastAccessTime = totime (attr_atime Attr) (attr_atimensec Attr),
                 LastWriteTime = totime (attr_mtime Attr) (attr_mtimensec Attr),
                 ChangeTime = totime (attr_ctime Attr) (attr_ctimensec Attr),
                 IndexNumber = attr_ino Attr, HardLinks = 0, EaSize = 0 \<rparr>"
  have res: "FuseAttrToFileInfo totime VolumeParams Attr = Inr ?fi"
    using nz mt by (simp add: FuseAttrToFileInfo_def Let_def)
  have A: "unat ?A = (unat (attr_size Attr) + ?au - 1) div ?au * ?au"
    using round_up_word [of ?U "attr_size Attr"] assms U by simp
  have a1: "?au dvd unat ?A" unfolding A using round_up_nat(1) [OF assms(1)] .
  have a2: "unat (attr_size Attr) \<le> unat ?A" unfolding A using round_up_nat(2) [OF assms(1)] .
  have a3: "unat ?A < unat (attr_size Attr) + ?au" unfolding A using round_up_nat(3) [OF assms(1)] .
  have m1: "attr_mode Attr AND 0xF000 = 0x4000 \<longrightarrow> fa = FILE_ATTRIBUTE_DIRECTORY \<and> tag = 0"
    using mt mode_dir [of "attr_mode Attr"] by simp
  have m2: "attr_mode Attr AND 0xF000 \<in> {0x1000, 0x2000, 0x6000, 0xC000} \<longrightarrow>
          fa = FILE_ATTRIBUTE_REPARSE_POINT \<and> tag = IO_REPARSE_TAG_NFS"
    using mt mode_special [of "attr_mode Attr"] by simp
  have m3: "attr_mode Attr AND 0xF000 = 0xA000 \<longrightarrow>
          fa = FILE_ATTRIBUTE_REPARSE_POINT \<and> tag = IO_REPARSE_TAG_SYMLINK"
    using mt mode_symlink [of "attr_mode Attr"] by simp
  have m4: "attr_mode Attr AND 0xF000 \<notin> {0x4000, 0x1000, 0x2000, 0x6000, 0xC000, 0xA000} \<longrightarrow>
          fa = 0 \<and> tag = 0"
    using mt mode_other [of "attr_mode Attr"] by simp
  show ?thesis
    apply (rule exI [of _ ?fi])
    using res a1 a2 a3 m1 m2 m3 m4 by simp
qed

theorem FuseAttrToFileInfo_mapping_witness:
  "0 < allocation_unit sample_volume_params
   \<and> unat (attr_size sample_attr) + allocation_unit sample_volume_params - 1 < 2 ^ 64
   \<and> attr_mode sample_attr AND 0xF000 = 0x4000
   \<and> (\<exists>fi. FuseAttrToFileInfo sample_totime sample_volume_params sample_attr = Inr fi
        \<and> FileAttributes fi = FILE_ATTRIBUTE_DIRECTORY \<and> ReparseTag fi = 0
        \<and> FileSize fi = 5000
        \<and> 4096 dvd unat (AllocationSize fi)
        \<and> 5000 \<le> unat (AllocationSize fi) \<and> unat (AllocationSize fi) < 9096
        \<and> CreationTime fi = ChangeTime fi
        \<and> IndexNumber fi = 77)"
proof -
  have au: "allocation_unit sample_volume_params = 4096"
    by (simp add: allocation_unit_def sample_volume_params_def)
  have h1: "0 < allocation_unit sample_volume_params" by (simp add: au)
  have sz: "attr_size sample_attr = 5000" by (simp add: sample_attr_def)
  have h2: "unat (attr_size sample_attr) + allocation_unit sample_volume_params - 1 < 2 ^ 64"
    by (simp add: au sz)
  have m: "attr_mode sample_attr AND 0xF000 = 0x4000" by (simp add: sample_attr_def)
  have i: "attr_ino sample_attr = 77" by (simp add: sample_attr_def)
  from FuseAttrToFileInfo_mapping [OF h1 h2, of sample_totime]
  obtain fi where "FuseAttrToFileInfo sample_totime sample_volume_params sample_attr = Inr fi"
    and "attr_mode sample_attr AND 0xF000 = 0x4000 \<longrightarrow>
          FileAttributes fi = FILE_ATTRIBUTE_DIRECTORY \<and> ReparseTag fi = 0"
    and "FileSize fi = attr_size sample_attr"
    and "allocation_unit sample_volume_params dvd unat (AllocationSize fi)"
    and "unat (attr_size sample_attr) \<le> unat (AllocationSize fi)"
    and "unat (AllocationSize fi) < unat (attr_size sample_attr) + allocation_unit sample_volume_params"
    and "CreationTime fi = ChangeTime fi"
    and "IndexNumber fi = attr_ino sample_attr"
    by blast
  then show ?thesis using h1 h2 m by (simp add: au sz i)
qed

text \<open>Without the two conditions the statement fails: with
  a file size of \<open>2^64 - 1\<close> the 64-bit sum wraps and the allocation size is 0, and
  with a zero sector size the division has no result.\<close>

theorem FuseAttrToFileInfo_counterexample:
  "map_sum id AllocationSize
     (FuseAttrToFileInfo sample_totime sample_volume_params
        (sample_attr\<lparr> attr_size := 0xFFFFFFFFFFFFFFFF \<rparr>)) = Inr 0
   \<and> FuseAttrToFileInfo sample_totime (sample_volume_params\<lparr> SectorSize := 0 \<rparr>) sample_attr
       = Inl DivideByZero"
  by (simp add: FuseAttrToFileInfo_def sample_volume_params_def sample_attr_def Let_def
        mode_to_attributes_def)

lemma unat_of_nat_32: "n < 2 ^ 32 \<Longrightarrow> unat (of_nat n :: UINT32) = n"
  by (simp add: unat_of_nat)

text \<open>When the name fits, that is when lookup request size + name length + 1 does not
  exceed REQ_SIZEMIN, the LOOKUP send routine at its entry writes a request of exactly that
  length, with opcode LOOKUP, the context's inode as nodeid and the name bytes followed by a
  terminating NUL.\<close>

lemma FuseProtoSendLookup_fits:
  assumes "CoroState c = CoroEntry" and "FuseRequest c = Some r"
    and "Length (Lookup_Name c) \<le> length (Buffer (Lookup_Name c))"
    and "REQ_SIZE_lookup K + Length (Lookup_Name c) + 1 \<le> REQ_SIZEMIN K"
    and "REQ_SIZEMIN K < 2 ^ 32"
  shows "\<exists>c' r'. FuseProtoSendLookup K errno Context c = Inr c'
           \<and> FuseRequest c' = Some r'
           \<and> unat (len r') = REQ_SIZE_lookup K + Length (Lookup_Name c) + 1
           \<and> opcode r' = FUSE_PROTO_OPCODE_LOOKUP
           \<and> nodeid r' = Ino c
           \<and> req r' = Req_lookup (take (Length (Lookup_Name c)) (Buffer (Lookup_Name c)) @ [0])"
proof -
  have "REQ_SIZE_lookup K + Length (Lookup_Name c) + 1 < 2 ^ 32"
    using assms(4,5) by simp
  then have l: "unat (of_nat (REQ_SIZE_lookup K + Length (Lookup_Name c) + 1) :: UINT32)
                  = REQ_SIZE_lookup K + Length (Lookup_Name c) + 1"
    by (rule unat_of_nat_32)
  show ?thesis
    using assms(1,2,3,4) l
    by (simp add: FuseProtoSendLookup_def FuseProtoInitRequest_def Let_def)
qed




lemma wf_fuse_consts: "wf_consts fuse_consts"
  by (simp add: wf_consts_def fuse_consts_def)

lemma loop_guard:
  fixes sz gap P :: nat
  assumes "0 < sz" and "sz dvd gap"
  shows "(P * sz < gap) = (P < gap div sz)"
proof -
  from assms(2) obtain k where k: "gap = sz * k" by (rule dvdE)
  have d: "sz * k div sz = k" using assms(1) by simp
  have "(P * sz < sz * k) = (sz * P < sz * k)" by (simp add: mult.commute)
  also have "\<dots> = (P < k)" using assms(1) by simp
  finally show ?thesis unfolding k d .
qed

lemma batch_forget_loop_eq:
  assumes "0 < sz" and "sz dvd gap"
  shows "batch_forget_loop gap sz P fl out =
           (P + min (length fl) (gap div sz - P),
            drop (min (length fl) (gap div sz - P)) fl,
            out @ map (\<lambda>i. (i, 1)) (take (min (length fl) (gap div sz - P)) fl))"
proof (induction fl arbitrary: P out)
  case Nil
  show ?case
    by (subst batch_forget_loop.simps) (simp add: FuseCacheForgetNextItem_def)
next
  case (Cons i rest)
  show ?case
  proof (cases "P * sz < gap")
    case True
    then have lt: "P < gap div sz" using loop_guard [OF assms] by simp
    then have m: "min (length (i # rest)) (gap div sz - P)
                   = Suc (min (length rest) (gap div sz - (P + 1)))"
      by (simp only: length_Cons)
    have "batch_forget_loop gap sz P (i # rest) out
            = batch_forget_loop gap sz (P + 1) rest (out @ [(i, 1)])"
      using True by (subst batch_forget_loop.simps) (simp add: FuseCacheForgetNextItem_def)
    also note Cons.IH [of "P + 1" "out @ [(i, 1)]"]
    finally show ?thesis unfolding m by simp
  next
    case False
    then have "\<not> P < gap div sz" using loop_guard [OF assms] by simp
    then have m: "min (length (i # rest)) (gap div sz - P) = 0" by simp
    show ?thesis
      using False unfolding m by (subst batch_forget_loop.simps) simp
  qed
qed

lemma FuseProtoFillForget_Cons:
  assumes "FuseRequest c = Some r" and "Forget_ForgetList c = i # rest"
  shows "FuseProtoFillForget K Context c =
           Inr (c\<lparr> Forget_ForgetList := rest,
                  FuseRequest := Some ((FuseProtoInitRequest Context c (of_nat (REQ_SIZE_forget K))
                      FUSE_PROTO_OPCODE_FORGET i r)\<lparr> req := Req_forget 1 \<rparr>) \<rparr>)"
  using assms by (simp add: FuseProtoFillForget_def FuseCacheForgetNextItem_def Let_def)

lemma FuseProtoFillBatchForget_eq:
  assumes "wf_consts K" and "FuseRequest c = Some r"
    and "n = min (length (Forget_ForgetList c)) (forget_capacity K)"
  shows "FuseProtoFillBatchForget K Context c =
           Inr (c\<lparr> Forget_ForgetList := drop n (Forget_ForgetList c),
                  FuseRequest := Some ((FuseProtoInitRequest Context c
                      (of_nat (REQ_SIZE_batch_forget K + n * SIZEOF_FORGET_ONE K))
                      FUSE_PROTO_OPCODE_BATCH_FORGET 0 r)
                    \<lparr> req := Req_batch_forget (of_nat n)
                        (map (\<lambda>i. (i, 1)) (take n (Forget_ForgetList c))) \<rparr>) \<rparr>)"
    and "REQ_SIZE_batch_forget K + n * SIZEOF_FORGET_ONE K \<le> REQ_SIZEMIN K"
proof -
  let ?gap = "REQ_SIZEMIN K - REQ_SIZE_batch_forget K"
  let ?sz = "SIZEOF_FORGET_ONE K"
  have sz: "0 < ?sz" and dv: "?sz dvd ?gap" and le: "REQ_SIZE_batch_forget K \<le> REQ_SIZEMIN K"
    and b32: "REQ_SIZEMIN K < 2 ^ 32"
    using assms(1) by (simp_all add: wf_consts_def)
  have n: "n = min (length (Forget_ForgetList c)) (?gap div ?sz - 0)"
    using assms(3) by (simp add: forget_capacity_def)
  have loop: "batch_forget_loop ?gap ?sz 0 (Forget_ForgetList c) []
                = (n, drop n (Forget_ForgetList c), map (\<lambda>i. (i, 1)) (take n (Forget_ForgetList c)))"
    unfolding n using batch_forget_loop_eq [OF sz dv, of 0 "Forget_ForgetList c" "[]"] by simp
  have "n \<le> ?gap div ?sz" using n by simp
  then have "n * ?sz \<le> ?gap div ?sz * ?sz" by (rule mult_le_mono1)
  also have "\<dots> \<le> ?gap" by simp
  finally have nb: "n * ?sz \<le> ?gap" .
  then show bound: "REQ_SIZE_batch_forget K + n * ?sz \<le> REQ_SIZEMIN K" using le by linarith
  then have "REQ_SIZE_batch_forget K + n * ?sz < 2 ^ 32" using b32 by linarith
  then have u: "unat (of_nat (REQ_SIZE_batch_forget K + n * ?sz) :: UINT32)
                  = REQ_SIZE_batch_forget K + n * ?sz"
    by (rule unat_of_nat_32)
  show "FuseProtoFillBatchForget K Context c =
           Inr (c\<lparr> Forget_ForgetList := drop n (Forget_ForgetList c),
                  FuseRequest := Some ((FuseProtoInitRequest Context c
                      (of_nat (REQ_SIZE_batch_forget K + n * SIZEOF_FORGET_ONE K))
                      FUSE_PROTO_OPCODE_BATCH_FORGET 0 r)
                    \<lparr> req := Req_batch_forget (of_nat n)
                        (map (\<lambda>i. (i, 1)) (take n (Forget_ForgetList c))) \<rparr>) \<rparr>)"
    using assms(2) bound u
    by (simp add: FuseProtoFillBatchForget_def loop FuseProtoInitRequest_def Let_def)
qed

text \<open>
  C7: with a request buffer present, the FORGET fill routine takes the first inode off a
  non-empty forget list and writes a request with opcode FORGET, that inode as nodeid and
  nlookup 1; the BATCH_FORGET fill routine packs (nodeid, 1) tuples for the first n inodes
  of the forget list, n being the smaller of the list's length and the number of tuples
  that fit up to REQ_SIZEMIN, removes them from the list, sets the request length to the
  batch-forget request size plus n tuple sizes, and sets count to n; it stops with the list
  exhausted or with the length at REQ_SIZEMIN.
\<close>

theorem forget_fill_routines:
  assumes "wf_consts K" and "FuseRequest c = Some r"
  shows "(\<forall>i rest. Forget_ForgetList c = i # rest \<longrightarrow>
            (\<exists>c' r'. FuseProtoFillForget K Context c = Inr c' \<and> FuseRequest c' = Some r'
               \<and> opcode r' = FUSE_PROTO_OPCODE_FORGET \<and> nodeid r' = i
               \<and> req r' = Req_forget 1 \<and> Forget_ForgetList c' = rest))
       \<and> (\<exists>c' r' n cnt. FuseProtoFillBatchForget K Context c = Inr c' \<and> FuseRequest c' = Some r'
             \<and> n = min (length (Forget_ForgetList c)) (forget_capacity K)
             \<and> opcode r' = FUSE_PROTO_OPCODE_BATCH_FORGET
             \<and> req r' = Req_batch_forget cnt (map (\<lambda>i. (i, 1)) (take n (Forget_ForgetList c)))
             \<and> unat cnt = n
             \<and> unat (len r') = REQ_SIZE_batch_forget K + n * SIZEOF_FORGET_ONE K
             \<and> Forget_ForgetList c' = drop n (Forget_ForgetList c)
             \<and> (n = length (Forget_ForgetList c) \<or> unat (len r') = REQ_SIZEMIN K))"
proof (intro conjI allI impI)
  fix i rest
  assume "Forget_ForgetList c = i # rest"
  then show "\<exists>c' r'. FuseProtoFillForget K Context c = Inr c' \<and> FuseRequest c' = Some r'
               \<and> opcode r' = FUSE_PROTO_OPCODE_FORGET \<and> nodeid r' = i
               \<and> req r' = Req_forget 1 \<and> Forget_ForgetList c' = rest"
    using FuseProtoFillForget_Cons [OF assms(2), of i rest K Context]
    by (simp add: FuseProtoInitRequest_def)
next
  let ?fl = "Forget_ForgetList c"
  let ?sz = "SIZEOF_FORGET_ONE K"
  let ?gap = "REQ_SIZEMIN K - REQ_SIZE_batch_forget K"
  define n where "n = min (length ?fl) (forget_capacity K)"
  have sz: "0 < ?sz" and dv: "?sz dvd ?gap" and le: "REQ_SIZE_batch_forget K \<le> REQ_SIZEMIN K"
    and b32: "REQ_SIZEMIN K < 2 ^ 32"
    using assms(1) by (simp_all add: wf_consts_def)
  note eq1 = FuseProtoFillBatchForget_eq(1) [OF assms(1,2) n_def, of Context]
  note eq2 = FuseProtoFillBatchForget_eq(2) [OF assms(1,2) n_def]
  have bound: "REQ_SIZE_batch_forget K + n * ?sz < 2 ^ 32" using eq2 b32 by linarith
  have "n \<le> n * ?sz" using sz by simp
  then have "n < 2 ^ 32" using bound by linarith
  then have cnt: "unat (of_nat n :: UINT32) = n" by (rule unat_of_nat_32)
  have ln: "unat (of_nat (REQ_SIZE_batch_forget K + n * ?sz) :: UINT32)
              = REQ_SIZE_batch_forget K + n * ?sz"
    using bound by (rule unat_of_nat_32)
  then have ln': "unat (of_nat (REQ_SIZE_batch_forget K) + of_nat n * of_nat ?sz :: UINT32)
              = REQ_SIZE_batch_forget K + n * ?sz"
    by simp
  have full: "n = length ?fl \<or> REQ_SIZE_batch_forget K + n * ?sz = REQ_SIZEMIN K"
  proof (cases "length ?fl \<le> forget_capacity K")
    case True
    then show ?thesis by (simp add: n_def)
  next
    case False
    then have "n = ?gap div ?sz" by (simp add: n_def forget_capacity_def)
    then have "n * ?sz = ?gap" using dv by simp
    then show ?thesis using le by simp
  qed
  show "\<exists>c' r' n cnt. FuseProtoFillBatchForget K Context c = Inr c' \<and> FuseRequest c' = Some r'
             \<and> n = min (length ?fl) (forget_capacity K)
             \<and> opcode r' = FUSE_PROTO_OPCODE_BATCH_FORGET
             \<and> req r' = Req_batch_forget cnt (map (\<lambda>i. (i, 1)) (take n ?fl))
             \<and> unat cnt = n
             \<and> unat (len r') = REQ_SIZE_batch_forget K + n * ?sz
             \<and> Forget_ForgetList c' = drop n ?fl
             \<and> (n = length ?fl \<or> unat (len r') = REQ_SIZEMIN K)"
    apply (subst eq1)
    apply (intro exI [of _ n] exI [of _ "of_nat n"] exI conjI)
             apply (rule refl)
            apply simp
           apply (rule n_def)
    using cnt ln' full by (simp_all add: FuseProtoInitRequest_def)
qed

theorem forget_fill_routines_witness:
  "wf_consts fuse_consts \<and> FuseRequest sample_context = Some zero_request
   \<and> Forget_ForgetList sample_context = [11, 12, 13]
   \<and> (\<exists>c' r'. FuseProtoFillForget fuse_consts (0xFFFFA00012345680 :: 64 word) sample_context = Inr c'
          \<and> FuseRequest c' = Some r' \<and> opcode r' = FUSE_PROTO_OPCODE_FORGET \<and> nodeid r' = 11
          \<and> req r' = Req_forget 1 \<and> Forget_ForgetList c' = [12, 13])
   \<and> (\<exists>c' r'. FuseProtoFillBatchForget fuse_consts (0xFFFFA00012345680 :: 64 word) sample_context
            = Inr c'
          \<and> FuseRequest c' = Some r' \<and> opcode r' = FUSE_PROTO_OPCODE_BATCH_FORGET
          \<and> req r' = Req_batch_forget 3 [(11, 1), (12, 1), (13, 1)]
          \<and> unat (len r') = 96 \<and> Forget_ForgetList c' = [])"
proof -
  have h2: "FuseRequest sample_context = Some zero_request" by (simp add: sample_context_def)
  have fl: "Forget_ForgetList sample_context = [11, 12, 13]" by (simp add: sample_context_def)
  have cap: "forget_capacity fuse_consts = 509" by (simp add: forget_capacity_def fuse_consts_def)
  have k: "REQ_SIZE_batch_forget fuse_consts = 48" "SIZEOF_FORGET_ONE fuse_consts = 16"
    by (simp_all add: fuse_consts_def)
  have t: "take 3 [11, 12, 13 :: UINT64] = [11, 12, 13]" by simp
  note T = forget_fill_routines [OF wf_fuse_consts h2, of "0xFFFFA00012345680 :: 64 word"]
  from T have A: "\<exists>c' r'. FuseProtoFillForget fuse_consts (0xFFFFA00012345680 :: 64 word) sample_context = Inr c'
          \<and> FuseRequest c' = Some r' \<and> opcode r' = FUSE_PROTO_OPCODE_FORGET \<and> nodeid r' = 11
          \<and> req r' = Req_forget 1 \<and> Forget_ForgetList c' = [12, 13]"
    using fl by blast
  from T obtain c' r' n cnt where
      B: "FuseProtoFillBatchForget fuse_consts (0xFFFFA00012345680 :: 64 word) sample_context = Inr c'"
         "FuseRequest c' = Some r'"
         "n = min (length (Forget_ForgetList sample_context)) (forget_capacity fuse_consts)"
         "opcode r' = FUSE_PROTO_OPCODE_BATCH_FORGET"
         "req r' = Req_batch_forget cnt (map (\<lambda>i. (i, 1)) (take n (Forget_ForgetList sample_context)))"
         "unat cnt = n"
         "unat (len r') = REQ_SIZE_batch_forget fuse_consts + n * SIZEOF_FORGET_ONE fuse_consts"
         "Forget_ForgetList c' = drop n (Forget_ForgetList sample_context)"
    by blast
  have n3: "n = 3" using B(3) by (simp add: fl cap)
  have c3: "cnt = 3" using B(6) n3 by (simp add: word_unat_eq_iff)
  have "req r' = Req_batch_forget 3 [(11, 1), (12, 1), (13, 1)]"
    using B(5) by (simp add: n3 c3 fl)
  moreover have "unat (len r') = 96" using B(7) by (simp add: n3 k)
  moreover have "Forget_ForgetList c' = []" using B(8) by (simp add: n3 fl)
  ultimately have "\<exists>c' r'. FuseProtoFillBatchForget fuse_consts (0xFFFFA00012345680 :: 64 word) sample_context
            = Inr c'
          \<and> FuseRequest c' = Some r' \<and> opcode r' = FUSE_PROTO_OPCODE_BATCH_FORGET
          \<and> req r' = Req_batch_forget 3 [(11, 1), (12, 1), (13, 1)]
          \<and> unat (len r') = 96 \<and> Forget_ForgetList c' = []"
    using B(1,2,4) by blast
  with A wf_fuse_consts h2 fl show ?thesis by blast
qed

subsection \<open>The parameter check\<close>

text \<open>
  C1 (amended): for every transact call, (1) if the input buffer is non-empty and its
  length is below RSP_HEADER_SIZE, or the response's len is below RSP_HEADER_SIZE, or len
  exceeds the input buffer length, the call returns INVALID_PARAMETER; (2) if the input
  buffer is empty or passes these checks, and the output buffer is non-empty with a length
  below REQ_SIZEMIN, the call returns BUFFER_TOO_SMALL; (3) an input buffer that is empty or
  carries a response with len exactly RSP_HEADER_SIZE, together with an output buffer that
  is empty or of exactly REQ_SIZEMIN, passes the check and the call goes on to its
  half-steps.  In (1) and (2) the state returned is the state given: no IOQ or Cache
  operation has happened.
\<close>

theorem transact_validation:
  "(InputBufferLength Irp \<noteq> 0 \<and>
      (unat (InputBufferLength Irp) < RSP_HEADER_SIZE K \<or>
       unat (rsp_len (SystemBuffer Irp)) < RSP_HEADER_SIZE K \<or>
       unat (InputBufferLength Irp) < unat (rsp_len (SystemBuffer Irp)))
     \<longrightarrow> FuseDeviceTransact H K Irp st = Inr (STATUS_INVALID_PARAMETER, st))
   \<and> (input_accepted K Irp \<and> OutputBufferLength Irp \<noteq> 0 \<and>
        unat (OutputBufferLength Irp) < REQ_SIZEMIN K
     \<longrightarrow> FuseDeviceTransact H K Irp st = Inr (STATUS_BUFFER_TOO_SMALL, st))
   \<and> ((InputBufferLength Irp = 0 \<or>
         (RSP_HEADER_SIZE K \<le> unat (InputBufferLength Irp) \<and>
          unat (rsp_len (SystemBuffer Irp)) = RSP_HEADER_SIZE K)) \<and>
        (OutputBufferLength Irp = 0 \<or> unat (OutputBufferLength Irp) = REQ_SIZEMIN K)
     \<longrightarrow> check_parameters K Irp = None
         \<and> FuseDeviceTransact H K Irp st = transact_body H Irp st)"
  by (auto simp: FuseDeviceTransact_def check_parameters_def input_accepted_def)

theorem transact_validation_witness:
  "FuseDeviceTransact (sample_host True) fuse_consts (sample_irp 16 0 15) (idle_state 7)
     = Inr (STATUS_INVALID_PARAMETER, idle_state 7)
   \<and> FuseDeviceTransact (sample_host True) fuse_consts (sample_irp 16 0 17) (idle_state 7)
     = Inr (STATUS_INVALID_PARAMETER, idle_state 7)
   \<and> FuseDeviceTransact (sample_host True) fuse_consts (sample_irp 16 8191 16) (idle_state 7)
     = Inr (STATUS_BUFFER_TOO_SMALL, idle_state 7)
   \<and> check_parameters fuse_consts (sample_irp 16 8192 16) = None"
proof -
  have a: "FuseDeviceTransact (sample_host True) fuse_consts (sample_irp 16 0 15) (idle_state 7)
     = Inr (STATUS_INVALID_PARAMETER, idle_state 7)"
    using transact_validation [of "sample_irp 16 0 15" fuse_consts "sample_host True" "idle_state 7"]
    by (simp add: sample_irp_def fuse_consts_def)
  have b: "FuseDeviceTransact (sample_host True) fuse_consts (sample_irp 16 0 17) (idle_state 7)
     = Inr (STATUS_INVALID_PARAMETER, idle_state 7)"
    using transact_validation [of "sample_irp 16 0 17" fuse_consts "sample_host True" "idle_state 7"]
    by (simp add: sample_irp_def fuse_consts_def)
  have c: "FuseDeviceTransact (sample_host True) fuse_consts (sample_irp 16 8191 16) (idle_state 7)
     = Inr (STATUS_BUFFER_TOO_SMALL, idle_state 7)"
    using transact_validation [of "sample_irp 16 8191 16" fuse_consts "sample_host True" "idle_state 7"]
    by (simp add: sample_irp_def fuse_consts_def input_accepted_def)
  have d: "check_parameters fuse_consts (sample_irp 16 8192 16) = None"
    using transact_validation [of "sample_irp 16 8192 16" fuse_consts "sample_host True" "idle_state 7"]
    by (simp add: sample_irp_def fuse_consts_def)
  from a b c d show ?thesis by simp
qed

text \<open>An output buffer below REQ_SIZEMIN does not always yield BUFFER_TOO_SMALL: with
  an input buffer of one byte and an output buffer of one byte the
  input check comes first and the call returns INVALID_PARAMETER.\<close>

theorem transact_validation_counterexample:
  "OutputBufferLength (sample_irp 1 1 0) \<noteq> 0
   \<and> unat (OutputBufferLength (sample_irp 1 1 0)) < REQ_SIZEMIN fuse_consts
   \<and> FuseDeviceTransact (sample_host True) fuse_consts (sample_irp 1 1 0) (idle_state 7)
       = Inr (STATUS_INVALID_PARAMETER, idle_state 7)
   \<and> STATUS_INVALID_PARAMETER \<noteq> STATUS_BUFFER_TOO_SMALL"
  by (simp add: FuseDeviceTransact_def check_parameters_def sample_irp_def fuse_consts_def
        STATUS_INVALID_PARAMETER_def STATUS_BUFFER_TOO_SMALL_def)

subsection \<open>The request half with nothing pending\<close>

lemma NT_SUCCESS_simps [simp]:
  "NT_SUCCESS STATUS_SUCCESS" "\<not> NT_SUCCESS STATUS_CANCELLED" "\<not> NT_SUCCESS STATUS_ACCESS_DENIED"
  "STATUS_CANCELLED \<noteq> STATUS_SUCCESS" "STATUS_TIMEOUT \<noteq> STATUS_SUCCESS"
  "STATUS_THREAD_IS_TERMINATING \<noteq> STATUS_SUCCESS" "STATUS_SUCCESS \<noteq> STATUS_TIMEOUT"
  "STATUS_SUCCESS \<noteq> STATUS_THREAD_IS_TERMINATING"
  by (simp_all add: NT_SUCCESS_def STATUS_SUCCESS_def STATUS_CANCELLED_def STATUS_ACCESS_DENIED_def
        STATUS_TIMEOUT_def STATUS_THREAD_IS_TERMINATING_def)

lemma next_pending_empty:
  "Pending (Ioq st) = [] \<Longrightarrow> FuseIoqNextPending st = (None, log_event EvIoqNextPending st)"
  by (simp add: FuseIoqNextPending_def)

lemma request_half_cancelled:
  assumes "Pending (Ioq st) = []" and "OutLen \<noteq> 0" and "VersionMajor st = 0"
    and "fst (WaitInitEvent H) = STATUS_TIMEOUT \<or> fst (WaitInitEvent H) = STATUS_THREAD_IS_TERMINATING"
  shows "request_half H OutLen st =
           Inr (STATUS_CANCELLED,
                st\<lparr> Information := 0, OutBuffer := zero_header (OutBuffer st),
                    Trace := Trace st @ [EvIoqNextPending, EvWaitInitEvent] \<rparr>)"
  using assms
  by (simp add: request_half_def acquire_context_def FuseIoqNextPending_def wait_for_init_def
        log_event_def exit_free_def Let_def)

lemma request_half_denied:
  assumes "Pending (Ioq st) = []" and "OutLen \<noteq> 0" and "VersionMajor st = - 1"
  shows "request_half H OutLen st =
           Inr (STATUS_ACCESS_DENIED,
                st\<lparr> Information := 0, OutBuffer := zero_header (OutBuffer st),
                    Trace := Trace st @ [EvIoqNextPending] \<rparr>)"
  using assms
  by (simp add: request_half_def acquire_context_def FuseIoqNextPending_def wait_for_init_def
        log_event_def exit_free_def Let_def)

lemma request_half_denied_after_wait:
  assumes "Pending (Ioq st) = []" and "OutLen \<noteq> 0" and "VersionMajor st = 0"
    and "WaitInitEvent H = (STATUS_SUCCESS, - 1)"
  shows "request_half H OutLen st =
           Inr (STATUS_ACCESS_DENIED,
                st\<lparr> Information := 0, OutBuffer := zero_header (OutBuffer st),
                    VersionMajor := - 1,
                    Trace := Trace st @ [EvIoqNextPending, EvWaitInitEvent] \<rparr>)"
  using assms
  by (simp add: request_half_def acquire_context_def FuseIoqNextPending_def wait_for_init_def
        log_event_def exit_free_def Let_def)

lemma request_half_none_supplied:
  assumes "Pending (Ioq st) = []" and "OutLen \<noteq> 0"
    and "VersionMajor st \<noteq> 0" and "VersionMajor st \<noteq> - 1"
    and "NT_SUCCESS (fst (ProviderPull H))" and "snd (ProviderPull H) = None"
  shows "request_half H OutLen st =
           Inr (STATUS_SUCCESS,
                st\<lparr> Information := 0, OutBuffer := zero_header (OutBuffer st),
                    Trace := Trace st @ [EvIoqNextPending, EvProviderPull] \<rparr>)"
  using assms
  by (simp add: request_half_def acquire_context_def FuseIoqNextPending_def wait_for_init_def
        log_event_def exit_free_def Let_def)

lemma request_half_provider_fails:
  assumes "Pending (Ioq st) = []" and "OutLen \<noteq> 0"
    and "VersionMajor st \<noteq> 0" and "VersionMajor st \<noteq> - 1"
    and "\<not> NT_SUCCESS (fst (ProviderPull H))"
  shows "request_half H OutLen st =
           Inr (fst (ProviderPull H),
                exit_free (snd (ProviderPull H))
                  (st\<lparr> Information := 0, OutBuffer := zero_header (OutBuffer st),
                      Trace := Trace st @ [EvIoqNextPending, EvProviderPull] \<rparr>))"
  using assms
  by (simp add: request_half_def acquire_context_def FuseIoqNextPending_def wait_for_init_def
        log_event_def Let_def)

lemma request_half_none_supplied_after_wait:
  assumes "Pending (Ioq st) = []" and "OutLen \<noteq> 0" and "VersionMajor st = 0"
    and "WaitInitEvent H = (STATUS_SUCCESS, v)" and "v \<noteq> - 1"
    and "NT_SUCCESS (fst (ProviderPull H))" and "snd (ProviderPull H) = None"
  shows "request_half H OutLen st =
           Inr (STATUS_SUCCESS,
                st\<lparr> Information := 0, OutBuffer := zero_header (OutBuffer st),
                    VersionMajor := v,
                    Trace := Trace st @ [EvIoqNextPending, EvWaitInitEvent, EvProviderPull] \<rparr>)"
  using assms
  by (simp add: request_half_def acquire_context_def FuseIoqNextPending_def wait_for_init_def
        log_event_def exit_free_def Let_def)

text \<open>
  C2 (amended): in a request half-step with an output buffer and an empty pending queue: if the
  version major is 0 the call waits on the init event, and a wait result of timeout or
  thread-terminating makes the call return STATUS_CANCELLED; if the version major is the
  all-ones sentinel - on entry, or as read after a successful wait - the call returns
  STATUS_ACCESS_DENIED without asking the host; otherwise the host framework is asked for
  an internal request, and when that call succeeds and supplies none the call returns
  STATUS_SUCCESS with the I/O information zero.  The traces list the calls made.
\<close>

theorem request_half_nothing_pending:
  assumes "Pending (Ioq st) = []" and "OutLen \<noteq> 0"
  shows "(VersionMajor st = 0 \<and>
            (fst (WaitInitEvent H) = STATUS_TIMEOUT \<or>
             fst (WaitInitEvent H) = STATUS_THREAD_IS_TERMINATING)
          \<longrightarrow> request_half H OutLen st =
                Inr (STATUS_CANCELLED,
                     st\<lparr> Information := 0, OutBuffer := zero_header (OutBuffer st),
                         Trace := Trace st @ [EvIoqNextPending, EvWaitInitEvent] \<rparr>))
       \<and> (VersionMajor st = - 1
          \<longrightarrow> request_half H OutLen st =
                Inr (STATUS_ACCESS_DENIED,
                     st\<lparr> Information := 0, OutBuffer := zero_header (OutBuffer st),
                         Trace := Trace st @ [EvIoqNextPending] \<rparr>))
       \<and> (VersionMajor st = 0 \<and> WaitInitEvent H = (STATUS_SUCCESS, - 1)
          \<longrightarrow> request_half H OutLen st =
                Inr (STATUS_ACCESS_DENIED,
                     st\<lparr> Information := 0, OutBuffer := zero_header (OutBuffer st),
                         VersionMajor := - 1,
                         Trace := Trace st @ [EvIoqNextPending, EvWaitInitEvent] \<rparr>))
       \<and> (VersionMajor st \<noteq> 0 \<and> VersionMajor st \<noteq> - 1 \<and>
            NT_SUCCESS (fst (ProviderPull H)) \<and> snd (ProviderPull H) = None
          \<longrightarrow> request_half H OutLen st =
                Inr (STATUS_SUCCESS,
                     st\<lparr> Information := 0, OutBuffer := zero_header (OutBuffer st),
                         Trace := Trace st @ [EvIoqNextPending, EvProviderPull] \<rparr>))
       \<and> (\<forall>v. VersionMajor st = 0 \<and> WaitInitEvent H = (STATUS_SUCCESS, v) \<and> v \<noteq> - 1 \<and>
            NT_SUCCESS (fst (ProviderPull H)) \<and> snd (ProviderPull H) = None
          \<longrightarrow> request_half H OutLen st =
                Inr (STATUS_SUCCESS,
                     st\<lparr> Information := 0, OutBuffer := zero_header (OutBuffer st),
                         VersionMajor := v,
                         Trace := Trace st @ [EvIoqNextPending, EvWaitInitEvent, EvProviderPull] \<rparr>))"
  using request_half_cancelled [OF assms, of H] request_half_denied [OF assms, of H]
    request_half_denied_after_wait [OF assms, of H]
    request_half_none_supplied [OF assms, of H]
    request_half_none_supplied_after_wait [OF assms, of H]
  by blast

lemma idle_state_simps [simp]:
  "Pending (Ioq (idle_state v)) = []" "VersionMajor (idle_state v) = v"
  "Processing (Ioq (idle_state v)) u = None" "Trace (idle_state v) = []"
  "OutBuffer (idle_state v) = zero_request"
  by (simp_all add: idle_state_def)

lemma sample_host_simps [simp]:
  "WaitInitEvent (sample_host b) = (STATUS_TIMEOUT, 0)"
  "ProviderPull (sample_host b) = (STATUS_SUCCESS, None)"
  by (simp_all add: sample_host_def)

theorem request_half_nothing_pending_witness:
  "Pending (Ioq (idle_state 0)) = [] \<and> (8192 :: UINT32) \<noteq> 0
   \<and> request_half (sample_host True) 8192 (idle_state 0) =
        Inr (STATUS_CANCELLED,
             (idle_state 0)\<lparr> Information := 0, OutBuffer := zero_header zero_request,
                 Trace := [EvIoqNextPending, EvWaitInitEvent] \<rparr>)
   \<and> request_half (sample_host True) 8192 (idle_state (- 1)) =
        Inr (STATUS_ACCESS_DENIED,
             (idle_state (- 1))\<lparr> Information := 0, OutBuffer := zero_header zero_request,
                 Trace := [EvIoqNextPending] \<rparr>)
   \<and> request_half (sample_host True) 8192 (idle_state 7) =
        Inr (STATUS_SUCCESS,
             (idle_state 7)\<lparr> Information := 0, OutBuffer := zero_header zero_request,
                 Trace := [EvIoqNextPending, EvProviderPull] \<rparr>)"
proof -
  have n: "(8192 :: UINT32) \<noteq> 0" by simp
  have p: "\<And>v. Pending (Ioq (idle_state v)) = []" by simp
  have a: "request_half (sample_host True) 8192 (idle_state 0) =
        Inr (STATUS_CANCELLED,
             (idle_state 0)\<lparr> Information := 0, OutBuffer := zero_header zero_request,
                 Trace := [EvIoqNextPending, EvWaitInitEvent] \<rparr>)"
    using request_half_nothing_pending [OF p n, of 0 "sample_host True"] by simp
  have b: "request_half (sample_host True) 8192 (idle_state (- 1)) =
        Inr (STATUS_ACCESS_DENIED,
             (idle_state (- 1))\<lparr> Information := 0, OutBuffer := zero_header zero_request,
                 Trace := [EvIoqNextPending] \<rparr>)"
    using request_half_nothing_pending [OF p n, of "- 1" "sample_host True"] by simp
  have c: "request_half (sample_host True) 8192 (idle_state 7) =
        Inr (STATUS_SUCCESS,
             (idle_state 7)\<lparr> Information := 0, OutBuffer := zero_header zero_request,
                 Trace := [EvIoqNextPending, EvProviderPull] \<rparr>)"
    using request_half_nothing_pending [OF p n, of 7 "sample_host True"] by simp
  from a b c n p show ?thesis by simp
qed

text \<open>A provider that supplies no request does not always make the call succeed: when
  the provider call itself fails (here with \<open>0xC000009A\<close>) and leaves the request
  null, the call returns the provider's status.\<close>

theorem request_half_provider_counterexample:
  "Pending (Ioq (idle_state 7)) = [] \<and> (8192 :: UINT32) \<noteq> 0
   \<and> VersionMajor (idle_state 7) = 7
   \<and> snd (ProviderPull failing_provider_host) = None
   \<and> map_sum id fst (request_half failing_provider_host 8192 (idle_state 7)) = Inr 0xC000009A
   \<and> (0xC000009A :: NTSTATUS) \<noteq> STATUS_SUCCESS"
proof -
  have p: "ProviderPull failing_provider_host = (0xC000009A, None)"
    by (simp add: failing_provider_host_def)
  have f: "\<not> NT_SUCCESS (fst (ProviderPull failing_provider_host))"
    by (simp add: p NT_SUCCESS_def)
  have "map_sum id fst (request_half failing_provider_host 8192 (idle_state 7)) = Inr 0xC000009A"
    by (subst request_half_provider_fails [OF _ _ _ _ f]) (simp_all add: p)
  then show ?thesis by (simp add: p STATUS_SUCCESS_def)
qed

subsection \<open>A response nobody waits for\<close>

lemma end_processing_missing:
  assumes "Processing (Ioq st) u = None"
  shows "FuseIoqEndProcessing u st = (None, log_event (EvIoqEndProcessing u) st)"
proof -
  have "(Processing (Ioq st))(u := None) = Processing (Ioq st)"
    using assms by (simp add: fun_upd_idem)
  then show ?thesis using assms by (simp add: FuseIoqEndProcessing_def)
qed

text \<open>
  C8 (amended): for every transact call that passes the parameter check and whose input
  buffer carries a response with a unique that is not in the processing map, the response
  half-step changes nothing but the record of its one lookup (IOQ, contexts and cache are
  as before; no context is resumed, re-posted or destroyed), and the call is then exactly
  the request half-step on that state: it returns what the request half-step returns, which
  is success when no output buffer is present.
\<close>

theorem spurious_response:
  assumes "check_parameters K Irp = None" and "InputBufferLength Irp \<noteq> 0"
    and "Processing (Ioq st) (rsp_unique (SystemBuffer Irp)) = None"
  shows "response_half H (SystemBuffer Irp) st =
           Inr (None, st\<lparr> Trace := Trace st @ [EvIoqEndProcessing (rsp_unique (SystemBuffer Irp))] \<rparr>)
       \<and> FuseDeviceTransact H K Irp st =
           request_half H (OutputBufferLength Irp)
             (st\<lparr> Trace := Trace st @ [EvIoqEndProcessing (rsp_unique (SystemBuffer Irp))] \<rparr>)
       \<and> (OutputBufferLength Irp = 0 \<longrightarrow>
            FuseDeviceTransact H K Irp st =
              Inr (STATUS_SUCCESS,
                   st\<lparr> Information := 0,
                       Trace := Trace st @ [EvIoqEndProcessing (rsp_unique (SystemBuffer Irp))] \<rparr>))"
proof -
  have r: "response_half H (SystemBuffer Irp) st =
           Inr (None, st\<lparr> Trace := Trace st @ [EvIoqEndProcessing (rsp_unique (SystemBuffer Irp))] \<rparr>)"
    by (simp add: response_half_def end_processing_missing [OF assms(3)] log_event_def)
  have t: "FuseDeviceTransact H K Irp st =
           request_half H (OutputBufferLength Irp)
             (st\<lparr> Trace := Trace st @ [EvIoqEndProcessing (rsp_unique (SystemBuffer Irp))] \<rparr>)"
    using assms(1,2) by (simp add: FuseDeviceTransact_def transact_body_def r)
  show ?thesis using r t by (simp add: request_half_def)
qed

text \<open>Such a call does not always return success: with an output buffer present,
  nothing pending and the version major at the access-denied sentinel, the request
  half-step fails and the call returns STATUS_ACCESS_DENIED.\<close>

theorem spurious_response_counterexample:
  "check_parameters fuse_consts (sample_irp 16 8192 16) = None
   \<and> InputBufferLength (sample_irp 16 8192 16) \<noteq> 0
   \<and> Processing (Ioq (idle_state (- 1))) (rsp_unique (SystemBuffer (sample_irp 16 8192 16))) = None
   \<and> map_sum id fst (FuseDeviceTransact (sample_host True) fuse_consts (sample_irp 16 8192 16)
         (idle_state (- 1))) = Inr STATUS_ACCESS_DENIED
   \<and> STATUS_ACCESS_DENIED \<noteq> STATUS_SUCCESS"
proof -
  have c: "check_parameters fuse_consts (sample_irp 16 8192 16) = None"
    by (simp add: check_parameters_def sample_irp_def fuse_consts_def)
  have i: "InputBufferLength (sample_irp 16 8192 16) \<noteq> 0" "OutputBufferLength (sample_irp 16 8192 16) = 8192"
    by (simp_all add: sample_irp_def)
  have r: "response_half (sample_host True) (SystemBuffer (sample_irp 16 8192 16)) (idle_state (- 1))
      = Inr (None, log_event (EvIoqEndProcessing (rsp_unique (SystemBuffer (sample_irp 16 8192 16)))) (idle_state (- 1)))"
    by (simp add: response_half_def end_processing_missing)
  have q: "map_sum id fst (request_half (sample_host True) 8192
      (log_event (EvIoqEndProcessing (rsp_unique (SystemBuffer (sample_irp 16 8192 16)))) (idle_state (- 1))))
     = Inr STATUS_ACCESS_DENIED"
    by (subst request_half_denied) (simp_all add: log_event_def)
  have "map_sum id fst (FuseDeviceTransact (sample_host True) fuse_consts (sample_irp 16 8192 16)
         (idle_state (- 1))) = Inr STATUS_ACCESS_DENIED"
    using c i q by (simp add: FuseDeviceTransact_def transact_body_def r)
  then show ?thesis using c i
    by (simp add: STATUS_ACCESS_DENIED_def STATUS_SUCCESS_def)
qed

theorem spurious_response_witness:
  "check_parameters fuse_consts (sample_irp 16 8192 16) = None
   \<and> InputBufferLength (sample_irp 16 8192 16) \<noteq> 0
   \<and> Processing (Ioq (idle_state 7)) (rsp_unique (SystemBuffer (sample_irp 16 8192 16))) = None
   \<and> FuseDeviceTransact (sample_host True) fuse_consts (sample_irp 16 8192 16) (idle_state 7) =
       Inr (STATUS_SUCCESS,
            (idle_state 7)\<lparr> Information := 0, OutBuffer := zero_header zero_request,
               Trace := [EvIoqEndProcessing 0xFFFFA00012345680, EvIoqNextPending, EvProviderPull] \<rparr>)
   \<and> FuseDeviceTransact (sample_host True) fuse_consts (sample_irp 16 0 16) (idle_state 7) =
       Inr (STATUS_SUCCESS,
            (idle_state 7)\<lparr> Information := 0,
               Trace := [EvIoqEndProcessing 0xFFFFA00012345680] \<rparr>)"
proof -
  have c: "check_parameters fuse_consts (sample_irp 16 8192 16) = None"
    "check_parameters fuse_consts (sample_irp 16 0 16) = None"
    by (simp_all add: check_parameters_def sample_irp_def fuse_consts_def)
  have i: "InputBufferLength (sample_irp 16 8192 16) \<noteq> 0" "InputBufferLength (sample_irp 16 0 16) \<noteq> 0"
    by (simp_all add: sample_irp_def)
  have o: "OutputBufferLength (sample_irp 16 8192 16) = 8192" "OutputBufferLength (sample_irp 16 0 16) = 0"
    "rsp_unique (SystemBuffer (sample_irp 16 8192 16)) = 0xFFFFA00012345680"
    "rsp_unique (SystemBuffer (sample_irp 16 0 16)) = 0xFFFFA00012345680"
    by (simp_all add: sample_irp_def)
  have p: "\<And>u. Processing (Ioq (idle_state 7)) u = None" by simp
  have a: "FuseDeviceTransact (sample_host True) fuse_consts (sample_irp 16 8192 16) (idle_state 7) =
       Inr (STATUS_SUCCESS,
            (idle_state 7)\<lparr> Information := 0, OutBuffer := zero_header zero_request,
               Trace := [EvIoqEndProcessing 0xFFFFA00012345680, EvIoqNextPending, EvProviderPull] \<rparr>)"
    using spurious_response [OF c(1) i(1) p, of "sample_host True"]
    by (simp add: o request_half_none_supplied)
  have b: "FuseDeviceTransact (sample_host True) fuse_consts (sample_irp 16 0 16) (idle_state 7) =
       Inr (STATUS_SUCCESS,
            (idle_state 7)\<lparr> Information := 0,
               Trace := [EvIoqEndProcessing 0xFFFFA00012345680] \<rparr>)"
  proof -
    from spurious_response [OF c(2) i(2) p, of "sample_host True"]
    have "OutputBufferLength (sample_irp 16 0 16) = 0 \<longrightarrow>
            FuseDeviceTransact (sample_host True) fuse_consts (sample_irp 16 0 16) (idle_state 7) =
              Inr (STATUS_SUCCESS,
                   (idle_state 7)\<lparr> Information := 0,
                       Trace := Trace (idle_state 7) @
                         [EvIoqEndProcessing (rsp_unique (SystemBuffer (sample_irp 16 0 16)))] \<rparr>)"
      by blast
    then show ?thesis by (simp add: o)
  qed
  from a b c i p show ?thesis by simp
qed

subsection \<open>Draining a forget list\<close>

lemma forget_fill:
  assumes "wf_consts K" and "Forget_ForgetList c0 \<noteq> []" and "FuseRequest c0 = Some r"
  shows "\<exists>c' r'. (if batch then FuseProtoFillBatchForget K p else FuseProtoFillForget K p) c0 = Inr c'
           \<and> Forget_ForgetList c' = drop (per_message K batch) (Forget_ForgetList c0)
           \<and> InternalRequest c' = InternalRequest c0
           \<and> InternalResponse c' = InternalResponse c0
           \<and> FuseRequest c' = Some r'"
proof (cases batch)
  case True
  define n where "n = min (length (Forget_ForgetList c0)) (forget_capacity K)"
  have d: "drop n (Forget_ForgetList c0) = drop (forget_capacity K) (Forget_ForgetList c0)"
    by (simp add: n_def min_def)
  show ?thesis
    using True d
    by (simp add: FuseProtoFillBatchForget_eq(1) [OF assms(1,3) n_def] per_message_def)
next
  case False
  from assms(2) obtain i rest where fl: "Forget_ForgetList c0 = i # rest"
    by (cases "Forget_ForgetList c0") auto
  show ?thesis
    using False fl
    by (simp add: FuseProtoFillForget_Cons [OF assms(3) fl] per_message_def)
qed

lemma forget_resume_step:
  assumes "wf_consts K" and "Contexts st p = Some c" and "Forget_ForgetList c \<noteq> []"
  shows "\<exists>c' r'. forget_resume K batch p st =
             Inr (False, st\<lparr> Contexts := (Contexts st)(p \<mapsto> c'), OutBuffer := r' \<rparr>)
           \<and> Forget_ForgetList c' = drop (per_message K batch) (Forget_ForgetList c)
           \<and> InternalRequest c' = InternalRequest c
           \<and> InternalResponse c' = InternalResponse c"
proof -
  let ?c0 = "c\<lparr> FuseRequest := Some (OutBuffer st), FuseResponse := None \<rparr>"
  have a: "Forget_ForgetList ?c0 \<noteq> []" "FuseRequest ?c0 = Some (OutBuffer st)"
    using assms(3) by simp_all
  from forget_fill [OF assms(1) a, of batch p]
  obtain c' r' where
    f: "(if batch then FuseProtoFillBatchForget K p else FuseProtoFillForget K p) ?c0 = Inr c'"
    and l: "Forget_ForgetList c' = drop (per_message K batch) (Forget_ForgetList ?c0)"
    and i: "InternalRequest c' = InternalRequest ?c0" "InternalResponse c' = InternalResponse ?c0"
    and r: "FuseRequest c' = Some r'"
    by blast
  have "forget_resume K batch p st =
          Inr (False, st\<lparr> Contexts := (Contexts st)(p \<mapsto> c'), OutBuffer := r' \<rparr>)"
    unfolding forget_resume_def using assms(2) f r by simp
  then show ?thesis using l i by auto
qed

lemma dispatch_forget:
  assumes "Contexts st p = Some c" and "InternalRequest c = None" and "is_forget_hint c"
  shows "dispatch H (CtxPtr p) False ir st =
           Inr (None, if Forget_ForgetList c \<noteq> [] then FuseIoqPostPending p st
                      else FuseContextDelete p st)"
  using assms by (simp add: dispatch_def is_forget_hint_def)

lemma forget_request_half:
  assumes wf: "wf_consts K"
    and H: "\<forall>s. ContextProcess H p None (Some OutLen) s = forget_resume K batch p s"
    and out: "OutLen \<noteq> 0"
    and pend: "forget_pending p fl st" and ne: "fl \<noteq> []"
  shows "\<exists>st'. request_half H OutLen st = Inr (STATUS_SUCCESS, st')
           \<and> (if drop (per_message K batch) fl = [] then forget_done p st'
               else forget_pending p (drop (per_message K batch) fl) st')"
proof -
  from pend obtain c where P: "Pending (Ioq st) = [p]" and C: "Contexts st p = Some c"
    and I: "InternalRequest c = None" and F: "is_forget_hint c" and L: "Forget_ForgetList c = fl"
    unfolding forget_pending_def by blast
  define sta where "sta = st\<lparr> Information := 0, OutBuffer := zero_header (OutBuffer st) \<rparr>"
  define st1 where "st1 = log_event (EvContextProcess p)
      (log_event EvIoqNextPending (sta\<lparr> Ioq := (Ioq sta)\<lparr> Pending := [] \<rparr> \<rparr>))"
  have np: "FuseIoqNextPending sta
              = (Some p, log_event EvIoqNextPending (sta\<lparr> Ioq := (Ioq sta)\<lparr> Pending := [] \<rparr> \<rparr>))"
    using P by (simp add: FuseIoqNextPending_def sta_def)
  have C1: "Contexts st1 p = Some c" using C by (simp add: st1_def sta_def log_event_def)
  have P1: "Pending (Ioq st1) = []" by (simp add: st1_def sta_def log_event_def)
  from forget_resume_step [OF wf C1, of batch] ne L
  obtain c' r' where
    R: "forget_resume K batch p st1 =
          Inr (False, st1\<lparr> Contexts := (Contexts st1)(p \<mapsto> c'), OutBuffer := r' \<rparr>)"
    and L': "Forget_ForgetList c' = drop (per_message K batch) fl"
    and I': "InternalRequest c' = None" and F': "InternalResponse c' = InternalResponse c"
    using I by auto
  define st2 where "st2 = st1\<lparr> Contexts := (Contexts st1)(p \<mapsto> c'), OutBuffer := r' \<rparr>"
  have acq: "acquire_context H OutLen sta = Inr (Dispatch (CtxPtr p) False None, st2)"
    using H R by (simp add: acquire_context_def np st1_def [symmetric] st2_def)
  have C2: "Contexts st2 p = Some c'" by (simp add: st2_def)
  have P2: "Pending (Ioq st2) = []" using P1 by (simp add: st2_def)
  have F2: "is_forget_hint c'" using F F' by (simp add: is_forget_hint_def)
  note D = dispatch_forget [OF C2 I' F2, of H None]
  show ?thesis
  proof (cases "drop (per_message K batch) fl = []")
    case True
    then have e: "Forget_ForgetList c' = []" using L' by simp
    define st3 where "st3 = FuseContextDelete p st2"
    have d: "dispatch H (CtxPtr p) False None st2 = Inr (None, st3)"
      using D e by (simp add: st3_def)
    have rh: "request_half H OutLen st =
            Inr (STATUS_SUCCESS, st3\<lparr> Information := ucast (len (OutBuffer st3)) \<rparr>)"
      using out acq d
      by (simp add: request_half_def Let_def sta_def [symmetric] exit_free_def)
    have "forget_done p (st3\<lparr> Information := ucast (len (OutBuffer st3)) \<rparr>)"
      using P2 by (simp add: forget_done_def st3_def FuseContextDelete_def log_event_def)
    with rh True show ?thesis by simp
  next
    case False
    then have e: "Forget_ForgetList c' \<noteq> []" using L' by simp
    define st3 where "st3 = FuseIoqPostPending p st2"
    have d: "dispatch H (CtxPtr p) False None st2 = Inr (None, st3)"
      using D e by (simp add: st3_def)
    have rh: "request_half H OutLen st =
            Inr (STATUS_SUCCESS, st3\<lparr> Information := ucast (len (OutBuffer st3)) \<rparr>)"
      using out acq d
      by (simp add: request_half_def Let_def sta_def [symmetric] exit_free_def)
    have "forget_pending p (drop (per_message K batch) fl)
            (st3\<lparr> Information := ucast (len (OutBuffer st3)) \<rparr>)"
      using P2 C2 I' F2 L'
      by (simp add: forget_pending_def st3_def FuseIoqPostPending_def log_event_def)
    with rh False show ?thesis by simp
  qed
qed

lemma forget_transact_step:
  assumes wf: "wf_consts K"
    and H: "\<forall>s. ContextProcess H p None (Some (OutputBufferLength Irp)) s = forget_resume K batch p s"
    and irp: "InputBufferLength Irp = 0" "OutputBufferLength Irp \<noteq> 0"
             "REQ_SIZEMIN K \<le> unat (OutputBufferLength Irp)"
    and pend: "forget_pending p fl st" and ne: "fl \<noteq> []"
  shows "\<exists>st'. FuseDeviceTransact H K Irp st = Inr (STATUS_SUCCESS, st')
           \<and> (if drop (per_message K batch) fl = [] then forget_done p st'
               else forget_pending p (drop (per_message K batch) fl) st')"
proof -
  have "check_parameters K Irp = None" using irp by (simp add: check_parameters_def)
  then have "FuseDeviceTransact H K Irp st = request_half H (OutputBufferLength Irp) st"
    using irp(1) by (simp add: FuseDeviceTransact_def transact_body_def)
  then show ?thesis using forget_request_half [OF wf H irp(2) pend ne] by simp
qed

lemma forget_steps_pending:
  assumes wf: "wf_consts K" and cap: "0 < per_message K batch"
    and H: "\<forall>s. ContextProcess H p None (Some (OutputBufferLength Irp)) s = forget_resume K batch p s"
    and irp: "InputBufferLength Irp = 0" "OutputBufferLength Irp \<noteq> 0"
             "REQ_SIZEMIN K \<le> unat (OutputBufferLength Irp)"
  shows "forget_pending p fl st \<Longrightarrow> j * per_message K batch < length fl
           \<Longrightarrow> \<exists>st'. transact_steps H K Irp j st = Inr st'
                  \<and> forget_pending p (drop (j * per_message K batch) fl) st'"
proof (induction j arbitrary: fl st)
  case 0
  then show ?case by simp
next
  case (Suc j)
  let ?m = "per_message K batch"
  have ne: "fl \<noteq> []" using Suc.prems(2) by auto
  have lt: "?m < length fl" using Suc.prems(2) cap by (cases j) auto
  then have dn: "drop ?m fl \<noteq> []" by simp
  from forget_transact_step [OF wf H irp Suc.prems(1) ne] dn
  obtain st1 where s1: "FuseDeviceTransact H K Irp st = Inr (STATUS_SUCCESS, st1)"
    and p1: "forget_pending p (drop ?m fl) st1"
    by auto
  have "j * ?m < length (drop ?m fl)" using Suc.prems(2) by simp
  from Suc.IH [OF p1 this]
  obtain st' where s': "transact_steps H K Irp j st1 = Inr st'"
    and p': "forget_pending p (drop (j * ?m) (drop ?m fl)) st'"
    by blast
  have "drop (j * ?m) (drop ?m fl) = drop (Suc j * ?m) fl" by (simp add: add.commute)
  with s1 s' p' show ?case by simp
qed

lemma ceil_div_bounds:
  fixes n m :: nat
  assumes "0 < m" and "0 < n"
  shows "((n + m - 1) div m - 1) * m < n" and "n \<le> (n + m - 1) div m * m"
proof -
  let ?q = "(n + m - 1) div m"
  have e: "?q * m + (n + m - 1) mod m = n + m - 1" by simp
  have r: "(n + m - 1) mod m < m" using assms(1) by simp
  have q1: "1 \<le> ?q" using assms by (simp add: Suc_le_eq div_greater_zero_iff)
  from e r assms show "n \<le> ?q * m" by linarith
  have "(?q - 1) * m = ?q * m - m" by (simp add: diff_mult_distrib)
  moreover have "?q * m \<le> n + m - 1" using e by linarith
  moreover have "m \<le> ?q * m" using q1 by simp
  ultimately show "(?q - 1) * m < n" using assms by linarith
qed

lemma transact_steps_Suc_end:
  "transact_steps H K Irp (Suc j) st =
     (case transact_steps H K Irp j st of
        Inl f \<Rightarrow> Inl f
      | Inr st1 \<Rightarrow> (case FuseDeviceTransact H K Irp st1 of
                      Inl f \<Rightarrow> Inl f | Inr (Result, st') \<Rightarrow> Inr st'))"
proof (induction j arbitrary: st)
  case 0
  show ?case by (simp split: sum.splits prod.splits)
next
  case (Suc j)
  show ?case
  proof (cases "FuseDeviceTransact H K Irp st")
    case (Inl f)
    then show ?thesis by simp
  next
    case (Inr rs)
    obtain R st1 where rs: "rs = (R, st1)" by (cases rs)
    have one: "transact_steps H K Irp (Suc j) st = transact_steps H K Irp j st1"
      using Inr rs by simp
    have "transact_steps H K Irp (Suc (Suc j)) st = transact_steps H K Irp (Suc j) st1"
      by (subst transact_steps.simps(2)) (simp only: Inr rs sum.case prod.case)
    also have "\<dots> = (case transact_steps H K Irp j st1 of
        Inl f \<Rightarrow> Inl f
      | Inr st2 \<Rightarrow> (case FuseDeviceTransact H K Irp st2 of
                      Inl f \<Rightarrow> Inl f | Inr (Result, st') \<Rightarrow> Inr st'))"
      by (rule Suc.IH)
    finally show ?thesis by (simp only: one)
  qed
qed

lemma forget_steps_ceil:
  assumes "0 < per_message K batch"
  shows "forget_steps K batch N = (N + per_message K batch - 1) div per_message K batch"
  by (simp add: forget_steps_def per_message_def)

text \<open>
  C3: a context with no internal request and a FORGET/BATCH_FORGET hint whose resume ended
  (Continue false) is re-posted to the pending queue when its forget list is non-empty and
  destroyed when it is empty.  Consequently a pending forget context with N >= 1 entries,
  resumed as the spec describes (one fill per request half-step), is still pending with a
  non-empty list after every smaller number of transact calls and is destroyed, its list
  drained, after ceiling(N / capacity) calls for BATCH_FORGET and after N calls for single
  FORGET; capacity is the number of forget-one tuples between the batch_forget request size
  and REQ_SIZEMIN.
\<close>

theorem forget_drain:
  fixes H :: "'c host"
  assumes wf: "wf_consts K" and cap: "0 < forget_capacity K"
    and H: "\<forall>s. ContextProcess H p None (Some (OutputBufferLength Irp)) s = forget_resume K batch p s"
    and irp: "InputBufferLength Irp = 0" "OutputBufferLength Irp \<noteq> 0"
             "REQ_SIZEMIN K \<le> unat (OutputBufferLength Irp)"
    and pend: "forget_pending p fl st" and ne: "fl \<noteq> []"
  shows "(\<forall>c (s :: 'c fuse_state) ir. Contexts s p = Some c \<and> InternalRequest c = None \<and> is_forget_hint c \<longrightarrow>
            dispatch H (CtxPtr p) False ir s =
              Inr (None, if Forget_ForgetList c \<noteq> [] then FuseIoqPostPending p s
                         else FuseContextDelete p s))
       \<and> (\<forall>j < forget_steps K batch (length fl).
            \<exists>st'. transact_steps H K Irp j st = Inr st'
              \<and> forget_pending p (drop (j * per_message K batch) fl) st'
              \<and> drop (j * per_message K batch) fl \<noteq> [])
       \<and> (\<exists>st'. transact_steps H K Irp (forget_steps K batch (length fl)) st = Inr st'
              \<and> forget_done p st')"
proof (intro conjI allI impI)
  fix c ir and s :: "'c fuse_state"
  assume "Contexts s p = Some c \<and> InternalRequest c = None \<and> is_forget_hint c"
  then show "dispatch H (CtxPtr p) False ir s =
              Inr (None, if Forget_ForgetList c \<noteq> [] then FuseIoqPostPending p s
                         else FuseContextDelete p s)"
    using dispatch_forget [of s p c H ir] by blast
next
  let ?m = "per_message K batch"
  let ?N = "length fl"
  let ?q = "(?N + ?m - 1) div ?m"
  have m: "0 < ?m" using cap by (simp add: per_message_def)
  have N: "0 < ?N" using ne by simp
  have q: "forget_steps K batch ?N = ?q" using m by (rule forget_steps_ceil)
  note B = ceil_div_bounds [OF m N]
  have before: "j * ?m < ?N" if "j < ?q" for j
  proof -
    from that have "j \<le> ?q - 1" by simp
    then have "j * ?m \<le> (?q - 1) * ?m" by (rule mult_le_mono1)
    with B(1) show ?thesis by linarith
  qed
  {
    fix j assume "j < forget_steps K batch ?N"
    then have lt: "j * ?m < ?N" using before q by simp
    from forget_steps_pending [OF wf m H irp pend lt]
    show "\<exists>st'. transact_steps H K Irp j st = Inr st'
              \<and> forget_pending p (drop (j * ?m) fl) st'
              \<and> drop (j * ?m) fl \<noteq> []"
      using lt by auto
  }
  have "?m \<le> ?N + ?m - 1" using N by linarith
  then have q1: "1 \<le> ?q" using m by (simp add: Suc_le_eq div_greater_zero_iff)
  then obtain j where j: "?q = Suc j" by (cases ?q) auto
  then have lt: "j * ?m < ?N" using before [of j] by simp
  from forget_steps_pending [OF wf m H irp pend lt]
  obtain st1 where s1: "transact_steps H K Irp j st = Inr st1"
    and p1: "forget_pending p (drop (j * ?m) fl) st1"
    by blast
  have ne1: "drop (j * ?m) fl \<noteq> []" using lt by simp
  have "?N \<le> Suc j * ?m" using B(2) j by simp
  then have e: "drop ?m (drop (j * ?m) fl) = []" by (simp add: add.commute)
  from forget_transact_step [OF wf H irp p1 ne1] e
  obtain st' where s': "FuseDeviceTransact H K Irp st1 = Inr (STATUS_SUCCESS, st')"
    and d: "forget_done p st'"
    by auto
  have "transact_steps H K Irp (Suc j) st = Inr st'"
    by (simp only: transact_steps_Suc_end s1 s' sum.case prod.case)
  then show "\<exists>st'. transact_steps H K Irp (forget_steps K batch ?N) st = Inr st' \<and> forget_done p st'"
    using d q j by auto
qed

lemma forget_state_pending:
  "forget_pending 0xFFFFA00012345680 [11, 12, 13] forget_state"
  by (simp add: forget_pending_def forget_state_def forget_context_def sample_context_def
        is_forget_hint_def FUSE_PROTO_OPCODE_FORGET_def)

theorem forget_drain_witness:
  "wf_consts fuse_consts \<and> 0 < forget_capacity fuse_consts
   \<and> InputBufferLength (sample_irp 0 8192 0) = 0 \<and> OutputBufferLength (sample_irp 0 8192 0) \<noteq> 0
   \<and> REQ_SIZEMIN fuse_consts \<le> unat (OutputBufferLength (sample_irp 0 8192 0))
   \<and> forget_pending 0xFFFFA00012345680 [11, 12, 13] forget_state
   \<and> forget_steps fuse_consts True 3 = 1 \<and> forget_steps fuse_consts False 3 = 3
   \<and> (\<exists>st'. transact_steps (sample_host True) fuse_consts (sample_irp 0 8192 0) 1 forget_state = Inr st'
          \<and> forget_done 0xFFFFA00012345680 st')
   \<and> (\<exists>st'. transact_steps (sample_host False) fuse_consts (sample_irp 0 8192 0) 2 forget_state = Inr st'
          \<and> forget_pending 0xFFFFA00012345680 [13] st')
   \<and> (\<exists>st'. transact_steps (sample_host False) fuse_consts (sample_irp 0 8192 0) 3 forget_state = Inr st'
          \<and> forget_done 0xFFFFA00012345680 st')"
proof -
  have cap: "forget_capacity fuse_consts = 509" by (simp add: forget_capacity_def fuse_consts_def)
  then have c0: "0 < forget_capacity fuse_consts" by simp
  have H: "\<forall>s. ContextProcess (sample_host b) 0xFFFFA00012345680 None
                 (Some (OutputBufferLength (sample_irp 0 8192 0))) s
               = forget_resume fuse_consts b 0xFFFFA00012345680 s" for b
    by (simp add: sample_host_def)
  have i: "InputBufferLength (sample_irp 0 8192 0) = 0" "OutputBufferLength (sample_irp 0 8192 0) \<noteq> 0"
    "REQ_SIZEMIN fuse_consts \<le> unat (OutputBufferLength (sample_irp 0 8192 0))"
    by (simp_all add: sample_irp_def fuse_consts_def)
  have ne: "[11, 12, 13 :: UINT64] \<noteq> []" by simp
  have s: "forget_steps fuse_consts True 3 = 1" "forget_steps fuse_consts False 3 = 3"
    by (simp_all add: forget_steps_def cap)
  have l: "length [11, 12, 13 :: UINT64] = 3" by simp
  have pm: "per_message fuse_consts False = 1" by (simp add: per_message_def)
  note T = forget_drain [OF wf_fuse_consts c0 H i forget_state_pending ne]
  from T [of True] have "\<exists>st'. transact_steps (sample_host True) fuse_consts (sample_irp 0 8192 0)
        (forget_steps fuse_consts True (length [11, 12, 13 :: UINT64]))
        forget_state = Inr st' \<and> forget_done 0xFFFFA00012345680 st'"
    by blast
  then have a: "\<exists>st'. transact_steps (sample_host True) fuse_consts (sample_irp 0 8192 0) 1
        forget_state = Inr st' \<and> forget_done 0xFFFFA00012345680 st'"
    by (simp only: l s)
  from T [of False] have "\<forall>j < forget_steps fuse_consts False (length [11, 12, 13 :: UINT64]).
       \<exists>st'. transact_steps (sample_host False) fuse_consts (sample_irp 0 8192 0) j forget_state = Inr st'
          \<and> forget_pending 0xFFFFA00012345680 (drop (j * per_message fuse_consts False) [11, 12, 13]) st'
          \<and> drop (j * per_message fuse_consts False) [11, 12, 13 :: UINT64] \<noteq> []"
    by blast
  then have "\<forall>j < 3. \<exists>st'. transact_steps (sample_host False) fuse_consts
        (sample_irp 0 8192 0) j forget_state = Inr st'
          \<and> forget_pending 0xFFFFA00012345680 (drop (j * 1) [11, 12, 13]) st'
          \<and> drop (j * 1) [11, 12, 13 :: UINT64] \<noteq> []"
    by (simp only: l s pm)
  then have "\<exists>st'. transact_steps (sample_host False) fuse_consts
        (sample_irp 0 8192 0) 2 forget_state = Inr st'
          \<and> forget_pending 0xFFFFA00012345680 (drop (2 * 1) [11, 12, 13]) st'
          \<and> drop (2 * 1) [11, 12, 13 :: UINT64] \<noteq> []"
    by (rule allE [of _ 2]) (simp only: numeral_less_iff semiring_norm simp_thms)
  moreover have "drop (2 * 1) [11, 12, 13 :: UINT64] = [13]" by (simp add: numeral_2_eq_2)
  ultimately have b: "\<exists>st'. transact_steps (sample_host False) fuse_consts
        (sample_irp 0 8192 0) 2 forget_state = Inr st'
          \<and> forget_pending 0xFFFFA00012345680 [13] st'"
    by (simp only:) blast
  from T [of False] have "\<exists>st'. transact_steps (sample_host False) fuse_consts (sample_irp 0 8192 0)
        (forget_steps fuse_consts False (length [11, 12, 13 :: UINT64]))
        forget_state = Inr st' \<and> forget_done 0xFFFFA00012345680 st'"
    by blast
  then have c: "\<exists>st'. transact_steps (sample_host False) fuse_consts (sample_irp 0 8192 0) 3
        forget_state = Inr st' \<and> forget_done 0xFFFFA00012345680 st'"
    by (simp only: l s)
  from a b c wf_fuse_consts c0 i forget_state_pending s show ?thesis by blast
qed

subsection \<open>Device init\<close>

lemma force_forced: "volume_params_forced (force_volume_params vp)"
  by (simp add: volume_params_forced_def force_volume_params_def)

lemma force_CaseSensitiveSearch [simp]: "CaseSensitiveSearch (force_volume_params vp)"
  by (simp add: force_volume_params_def)

lemma init_ioq_fails:
  assumes "\<not> NT_SUCCESS (fst (IoqCreate H))"
  shows "FuseDeviceInit H vp inst =
           Inr (fst (IoqCreate H),
                inst\<lparr> Inst_Trace := Inst_Trace inst @ [EvIoqCreate] @
                        (if snd (IoqCreate H) \<noteq> None then [EvIoqDelete] else []) \<rparr>,
                force_volume_params vp)"
  using assms by (simp add: FuseDeviceInit_def init_fail_def log_init_def Let_def)

lemma init_cache_fails:
  assumes "NT_SUCCESS (fst (IoqCreate H))"
    and "\<not> NT_SUCCESS (fst (CacheCreate H 0 False))"
  shows "FuseDeviceInit H vp inst =
           Inr (fst (CacheCreate H 0 False),
                inst\<lparr> Inst_Trace := Inst_Trace inst @ [EvIoqCreate, EvCacheCreate 0 False] @
                        (if snd (CacheCreate H 0 False) \<noteq> None then [EvCacheDelete] else []) @
                        (if snd (IoqCreate H) \<noteq> None then [EvIoqDelete] else []) \<rparr>,
                force_volume_params vp)"
  using assms
  by (simp add: FuseDeviceInit_def init_fail_def log_init_def Let_def)

lemma init_post_fails:
  assumes "IoqCreate H = (s1, Some q)" and "NT_SUCCESS s1"
    and "CacheCreate H 0 False = (s2, Some ch)" and "NT_SUCCESS s2"
    and "NewContext H = Inl s3" and "\<not> NT_SUCCESS s3"
  shows "FuseDeviceInit H vp inst =
           Inr (s3,
                inst\<lparr> Inst_VolumeParams := Some (force_volume_params vp),
                      Inst_OpGuardLock := True, Inst_Ioq := Some q, Inst_Cache := Some ch,
                      Inst_InitEvent := Some False, Inst_FileTable := True,
                      Inst_Trace := Inst_Trace inst @
                        [EvIoqCreate, EvCacheCreate 0 False, EvRwlockInitialize, EvInitializeEvent,
                         EvFileInstanceInit, EvInitContextCreate, EvCacheDelete, EvIoqDelete] \<rparr>,
                force_volume_params vp)"
  using assms
  by (simp add: FuseDeviceInit_def FuseProtoPostInit_def init_fail_def log_init_def Let_def)

lemma init_succeeds:
  assumes "IoqCreate H = (s1, Some q)" and "NT_SUCCESS s1"
    and "CacheCreate H 0 False = (s2, Some ch)" and "NT_SUCCESS s2"
    and "NewContext H = Inr (p, c)"
  shows "FuseDeviceInit H vp inst =
           Inr (STATUS_SUCCESS,
                inst\<lparr> Inst_VolumeParams := Some (force_volume_params vp),
                      Inst_OpGuardLock := True,
                      Inst_Ioq := Some (q\<lparr> Pending := Pending q @ [p] \<rparr>), Inst_Cache := Some ch,
                      Inst_InitEvent := Some False, Inst_FileTable := True,
                      Inst_Contexts := (Inst_Contexts inst)(p \<mapsto>
                        c\<lparr> InternalResponse :=
                            (InternalResponse c)\<lparr> Rsp_Hint := ucast FUSE_PROTO_OPCODE_INIT \<rparr> \<rparr>),
                      Inst_Trace := Inst_Trace inst @
                        [EvIoqCreate, EvCacheCreate 0 False, EvRwlockInitialize, EvInitializeEvent,
                         EvFileInstanceInit, EvInitContextCreate, EvInitPostPending p] \<rparr>,
                force_volume_params vp)"
  using assms
  by (simp add: FuseDeviceInit_def FuseProtoPostInit_def init_fail_def log_init_def Let_def)

text \<open>
  C9: FuseDeviceInit first forces the volume parameters to the fixed values (sector fields
  untouched) and leaves them so on every path.  When every step succeeds it then creates
  the IOQ, creates the Cache (case-insensitivity argument false), initializes the
  operation-guard lock, stores IOQ and Cache and initializes the init event, brings up the
  file table, creates a context, marks it INIT and posts it to pending, in this order, and
  returns success.  When creating the IOQ fails it returns that status; when creating the
  Cache fails it returns that status; when the INIT context is status-only with a failing
  status it returns that status: in each case a Cache that was stored is deleted, then an
  IOQ that was stored is deleted.  (Lock, event and file table are initialized in place; the
  failure path does not touch them.)
\<close>

theorem FuseDeviceInit_order:
  "volume_params_forced (force_volume_params vp)
   \<and> SectorSize (force_volume_params vp) = SectorSize vp
   \<and> SectorsPerAllocationUnit (force_volume_params vp) = SectorsPerAllocationUnit vp
   \<and> (\<forall>s1 q s2 ch p c.
         IoqCreate H = (s1, Some q) \<and> NT_SUCCESS s1 \<and>
         CacheCreate H 0 False = (s2, Some ch) \<and> NT_SUCCESS s2 \<and> NewContext H = Inr (p, c)
         \<longrightarrow> FuseDeviceInit H vp inst =
               Inr (STATUS_SUCCESS,
                    inst\<lparr> Inst_VolumeParams := Some (force_volume_params vp),
                          Inst_OpGuardLock := True,
                          Inst_Ioq := Some (q\<lparr> Pending := Pending q @ [p] \<rparr>),
                          Inst_Cache := Some ch,
                          Inst_InitEvent := Some False, Inst_FileTable := True,
                          Inst_Contexts := (Inst_Contexts inst)(p \<mapsto>
                            c\<lparr> InternalResponse :=
                                (InternalResponse c)\<lparr> Rsp_Hint := ucast FUSE_PROTO_OPCODE_INIT \<rparr> \<rparr>),
                          Inst_Trace := Inst_Trace inst @
                            [EvIoqCreate, EvCacheCreate 0 False, EvRwlockInitialize,
                             EvInitializeEvent, EvFileInstanceInit, EvInitContextCreate,
                             EvInitPostPending p] \<rparr>,
                    force_volume_params vp))
   \<and> (\<not> NT_SUCCESS (fst (IoqCreate H))
         \<longrightarrow> FuseDeviceInit H vp inst =
               Inr (fst (IoqCreate H),
                    inst\<lparr> Inst_Trace := Inst_Trace inst @ [EvIoqCreate] @
                            (if snd (IoqCreate H) \<noteq> None then [EvIoqDelete] else []) \<rparr>,
                    force_volume_params vp))
   \<and> (NT_SUCCESS (fst (IoqCreate H)) \<and> \<not> NT_SUCCESS (fst (CacheCreate H 0 False))
         \<longrightarrow> FuseDeviceInit H vp inst =
               Inr (fst (CacheCreate H 0 False),
                    inst\<lparr> Inst_Trace := Inst_Trace inst @ [EvIoqCreate, EvCacheCreate 0 False] @
                            (if snd (CacheCreate H 0 False) \<noteq> None then [EvCacheDelete] else []) @
                            (if snd (IoqCreate H) \<noteq> None then [EvIoqDelete] else []) \<rparr>,
                    force_volume_params vp))
   \<and> (\<forall>s1 q s2 ch s3.
         IoqCreate H = (s1, Some q) \<and> NT_SUCCESS s1 \<and>
         CacheCreate H 0 False = (s2, Some ch) \<and> NT_SUCCESS s2 \<and>
         NewContext H = Inl s3 \<and> \<not> NT_SUCCESS s3
         \<longrightarrow> FuseDeviceInit H vp inst =
               Inr (s3,
                    inst\<lparr> Inst_VolumeParams := Some (force_volume_params vp),
                          Inst_OpGuardLock := True, Inst_Ioq := Some q, Inst_Cache := Some ch,
                          Inst_InitEvent := Some False, Inst_FileTable := True,
                          Inst_Trace := Inst_Trace inst @
                            [EvIoqCreate, EvCacheCreate 0 False, EvRwlockInitialize,
                             EvInitializeEvent, EvFileInstanceInit, EvInitContextCreate,
                             EvCacheDelete, EvIoqDelete] \<rparr>,
                    force_volume_params vp))"
proof (intro conjI allI impI)
  show "volume_params_forced (force_volume_params vp)" by (rule force_forced)
  show "SectorSize (force_volume_params vp) = SectorSize vp"
    by (simp add: force_volume_params_def)
  show "SectorsPerAllocationUnit (force_volume_params vp) = SectorsPerAllocationUnit vp"
    by (simp add: force_volume_params_def)
next
  fix s1 q s2 ch p c
  assume "IoqCreate H = (s1, Some q) \<and> NT_SUCCESS s1 \<and>
         CacheCreate H 0 False = (s2, Some ch) \<and> NT_SUCCESS s2 \<and> NewContext H = Inr (p, c)"
  then show "FuseDeviceInit H vp inst =
               Inr (STATUS_SUCCESS,
                    inst\<lparr> Inst_VolumeParams := Some (force_volume_params vp),
                          Inst_OpGuardLock := True,
                          Inst_Ioq := Some (q\<lparr> Pending := Pending q @ [p] \<rparr>),
                          Inst_Cache := Some ch,
                          Inst_InitEvent := Some False, Inst_FileTable := True,
                          Inst_Contexts := (Inst_Contexts inst)(p \<mapsto>
                            c\<lparr> InternalResponse :=
                                (InternalResponse c)\<lparr> Rsp_Hint := ucast FUSE_PROTO_OPCODE_INIT \<rparr> \<rparr>),
                          Inst_Trace := Inst_Trace inst @
                            [EvIoqCreate, EvCacheCreate 0 False, EvRwlockInitialize,
                             EvInitializeEvent, EvFileInstanceInit, EvInitContextCreate,
                             EvInitPostPending p] \<rparr>,
                    force_volume_params vp)"
    using init_succeeds [of H s1 q s2 ch p c vp inst] by blast
next
  assume "\<not> NT_SUCCESS (fst (IoqCreate H))"
  then show "FuseDeviceInit H vp inst =
               Inr (fst (IoqCreate H),
                    inst\<lparr> Inst_Trace := Inst_Trace inst @ [EvIoqCreate] @
                            (if snd (IoqCreate H) \<noteq> None then [EvIoqDelete] else []) \<rparr>,
                    force_volume_params vp)"
    by (rule init_ioq_fails)
next
  assume "NT_SUCCESS (fst (IoqCreate H)) \<and> \<not> NT_SUCCESS (fst (CacheCreate H 0 False))"
  then show "FuseDeviceInit H vp inst =
               Inr (fst (CacheCreate H 0 False),
                    inst\<lparr> Inst_Trace := Inst_Trace inst @ [EvIoqCreate, EvCacheCreate 0 False] @
                            (if snd (CacheCreate H 0 False) \<noteq> None then [EvCacheDelete] else []) @
                            (if snd (IoqCreate H) \<noteq> None then [EvIoqDelete] else []) \<rparr>,
                    force_volume_params vp)"
    using init_cache_fails [of H vp inst] by blast
next
  fix s1 q s2 ch s3
  assume "IoqCreate H = (s1, Some q) \<and> NT_SUCCESS s1 \<and>
         CacheCreate H 0 False = (s2, Some ch) \<and> NT_SUCCESS s2 \<and>
         NewContext H = Inl s3 \<and> \<not> NT_SUCCESS s3"
  then show "FuseDeviceInit H vp inst =
               Inr (s3,
                    inst\<lparr> Inst_VolumeParams := Some (force_volume_params vp),
                          Inst_OpGuardLock := True, Inst_Ioq := Some q, Inst_Cache := Some ch,
                          Inst_InitEvent := Some False, Inst_FileTable := True,
                          Inst_Trace := Inst_Trace inst @
                            [EvIoqCreate, EvCacheCreate 0 False, EvRwlockInitialize,
                             EvInitializeEvent, EvFileInstanceInit, EvInitContextCreate,
                             EvCacheDelete, EvIoqDelete] \<rparr>,
                    force_volume_params vp)"
    using init_post_fails [of H s1 q s2 ch s3 vp inst] by blast
qed

theorem FuseDeviceInit_order_witness:
  "IoqCreate init_host_ok = (STATUS_SUCCESS, Some empty_ioq) \<and> NT_SUCCESS STATUS_SUCCESS
   \<and> CacheCreate init_host_ok 0 False = (STATUS_SUCCESS, Some ())
   \<and> NewContext init_host_ok = Inr (0xFFFFA00012345680, sample_context)
   \<and> NewContext init_host_no_context = Inl 0xC000009A \<and> \<not> NT_SUCCESS 0xC000009A
   \<and> map_sum id (\<lambda>r. (fst r, map_option Pending (Inst_Ioq (fst (snd r))), Inst_Trace (fst (snd r))))
        (FuseDeviceInit init_host_ok sample_volume_params fresh_instance)
      = Inr (STATUS_SUCCESS, Some [0xFFFFA00012345680],
             [EvIoqCreate, EvCacheCreate 0 False, EvRwlockInitialize, EvInitializeEvent,
              EvFileInstanceInit, EvInitContextCreate, EvInitPostPending 0xFFFFA00012345680])
   \<and> map_sum id (\<lambda>r. (fst r, Inst_Trace (fst (snd r))))
        (FuseDeviceInit init_host_no_context sample_volume_params fresh_instance)
      = Inr (0xC000009A,
             [EvIoqCreate, EvCacheCreate 0 False, EvRwlockInitialize, EvInitializeEvent,
              EvFileInstanceInit, EvInitContextCreate, EvCacheDelete, EvIoqDelete])"
proof -
  have a: "IoqCreate init_host_ok = (STATUS_SUCCESS, Some empty_ioq)"
    "CacheCreate init_host_ok 0 False = (STATUS_SUCCESS, Some ())"
    "NewContext init_host_ok = Inr (0xFFFFA00012345680, sample_context)"
    by (simp_all add: init_host_ok_def)
  have b: "IoqCreate init_host_no_context = (STATUS_SUCCESS, Some empty_ioq)"
    "CacheCreate init_host_no_context 0 False = (STATUS_SUCCESS, Some ())"
    "NewContext init_host_no_context = Inl 0xC000009A"
    by (simp_all add: init_host_no_context_def init_host_ok_def)
  have s: "NT_SUCCESS STATUS_SUCCESS" by simp
  have f: "\<not> NT_SUCCESS 0xC000009A" by (simp add: NT_SUCCESS_def)
  have t: "Inst_Trace fresh_instance = []" "Pending empty_ioq = []"
    by (simp_all add: fresh_instance_def empty_ioq_def)
  from FuseDeviceInit_order [of sample_volume_params init_host_ok fresh_instance] a s
  have ok: "FuseDeviceInit init_host_ok sample_volume_params fresh_instance =
               Inr (STATUS_SUCCESS,
                    fresh_instance\<lparr> Inst_VolumeParams := Some (force_volume_params sample_volume_params),
                          Inst_OpGuardLock := True,
                          Inst_Ioq := Some (empty_ioq\<lparr> Pending := Pending empty_ioq @ [0xFFFFA00012345680] \<rparr>),
                          Inst_Cache := Some (),
                          Inst_InitEvent := Some False, Inst_FileTable := True,
                          Inst_Contexts := (Inst_Contexts fresh_instance)(0xFFFFA00012345680 \<mapsto>
                            sample_context\<lparr> InternalResponse :=
                                (InternalResponse sample_context)\<lparr> Rsp_Hint := ucast FUSE_PROTO_OPCODE_INIT \<rparr> \<rparr>),
                          Inst_Trace := Inst_Trace fresh_instance @
                            [EvIoqCreate, EvCacheCreate 0 False, EvRwlockInitialize,
                             EvInitializeEvent, EvFileInstanceInit, EvInitContextCreate,
                             EvInitPostPending 0xFFFFA00012345680] \<rparr>,
                    force_volume_params sample_volume_params)"
    by blast
  from FuseDeviceInit_order [of sample_volume_params init_host_no_context fresh_instance] b s f
  have ko: "FuseDeviceInit init_host_no_context sample_volume_params fresh_instance =
               Inr (0xC000009A,
                    fresh_instance\<lparr> Inst_VolumeParams := Some (force_volume_params sample_volume_params),
                          Inst_OpGuardLock := True, Inst_Ioq := Some empty_ioq, Inst_Cache := Some (),
                          Inst_InitEvent := Some False, Inst_FileTable := True,
                          Inst_Trace := Inst_Trace fresh_instance @
                            [EvIoqCreate, EvCacheCreate 0 False, EvRwlockInitialize,
                             EvInitializeEvent, EvFileInstanceInit, EvInitContextCreate,
                             EvCacheDelete, EvIoqDelete] \<rparr>,
                    force_volume_params sample_volume_params)"
    by blast
  show ?thesis
    by (simp add: ok ko a b f t)
qed

subsection \<open>Correlation ids\<close>

lemma stamped_total_Init:
  "CoroState c = CoroEntry \<Longrightarrow> FuseRequest c = Some r
     \<Longrightarrow> stamped_unique (FuseProtoSendInit K errno p c) = Some (ucast p)"
  by (simp add: FuseProtoSendInit_def stamped_unique_def Let_def)

lemma stamped_total_Getattr:
  "CoroState c = CoroEntry \<Longrightarrow> FuseRequest c = Some r
     \<Longrightarrow> stamped_unique (FuseProtoSendGetattr K errno p c) = Some (ucast p)"
  by (simp add: FuseProtoSendGetattr_def stamped_unique_def Let_def)

lemma stamped_total_Open:
  "CoroState c = CoroEntry \<Longrightarrow> FuseRequest c = Some r
     \<Longrightarrow> stamped_unique (FuseProtoSendOpen K errno p c) = Some (ucast p)"
  by (simp add: FuseProtoSendOpen_def stamped_unique_def Let_def)

lemma stamped_total_Opendir:
  "CoroState c = CoroEntry \<Longrightarrow> FuseRequest c = Some r
     \<Longrightarrow> stamped_unique (FuseProtoSendOpendir K errno p c) = Some (ucast p)"
  by (simp add: FuseProtoSendOpendir_def stamped_unique_def Let_def)

lemma stamped_total_Lookup:
  assumes "CoroState c = CoroEntry" and "FuseRequest c = Some r"
    and "Length (Lookup_Name c) \<le> length (Buffer (Lookup_Name c))"
    and "REQ_SIZE_lookup K + Length (Lookup_Name c) + 1 \<le> REQ_SIZEMIN K"
    and "REQ_SIZEMIN K < 2 ^ 32"
  shows "stamped_unique (FuseProtoSendLookup K errno p c) = Some (ucast p)"
proof -
  have "REQ_SIZE_lookup K + Length (Lookup_Name c) + 1 < 2 ^ 32"
    using assms(4,5) by simp
  then have l: "unat (of_nat (REQ_SIZE_lookup K + Length (Lookup_Name c) + 1) :: UINT32)
                  = REQ_SIZE_lookup K + Length (Lookup_Name c) + 1"
    by (rule unat_of_nat_32)
  show ?thesis
    using assms(1,2,3,4) l
    by (simp add: FuseProtoSendLookup_def FuseProtoInitRequest_def stamped_unique_def Let_def)
qed

lemma stamped_total_FillForget:
  assumes "FuseRequest c = Some r" and "Forget_ForgetList c \<noteq> []"
  shows "stamped_unique (FuseProtoFillForget K p c) = Some (ucast p)"
proof -
  from assms(2) obtain i rest where fl: "Forget_ForgetList c = i # rest"
    by (cases "Forget_ForgetList c") auto
  show ?thesis
    by (simp add: FuseProtoFillForget_Cons [OF assms(1) fl] stamped_unique_def)
qed

lemma stamped_total_FillBatchForget:
  assumes "wf_consts K" and "FuseRequest c = Some r"
  shows "stamped_unique (FuseProtoFillBatchForget K p c) = Some (ucast p)"
  by (simp add: FuseProtoFillBatchForget_eq(1) [OF assms refl] stamped_unique_def)

lemma stamped_Some_ucast:
  assumes "f \<in> set (fill_routines K errno)" and "CoroState c = CoroEntry"
    and "stamped_unique (f p c) = Some u"
  shows "u = ucast p"
proof -
  from assms(3) obtain c' where "f p c = Inr c'"
    by (cases "f p c") (simp_all add: stamped_unique_def)
  from stamped_fill [OF assms(1,2) this] assms(3) show ?thesis by simp
qed

text \<open>
  C4: every fill routine of proto.c, run at its entry on a context with a request buffer,
  returns with the request's unique stamped with the context's own address, zero-extended
  to 64 bits: INIT, GETATTR, OPEN and OPENDIR always; LOOKUP when the name fits the minimum
  request size; FORGET when the forget list is not empty; BATCH_FORGET under the header's
  size relations.  Whatever two fill routines stamp for two contexts at distinct addresses
  are these two addresses, and they differ.
\<close>

theorem unique_is_context_identity:
  fixes p1 p2 :: "'p::len word"
  assumes "LENGTH('p) \<le> 64"
    and "CoroState c1 = CoroEntry" and "FuseRequest c1 = Some r1"
    and "CoroState c2 = CoroEntry" and "p1 \<noteq> p2"
  shows "stamped_unique (FuseProtoSendInit K errno p1 c1) = Some (ucast p1)
       \<and> (Length (Lookup_Name c1) \<le> length (Buffer (Lookup_Name c1)) \<and>
           REQ_SIZE_lookup K + Length (Lookup_Name c1) + 1 \<le> REQ_SIZEMIN K \<and>
           REQ_SIZEMIN K < 2 ^ 32
           \<longrightarrow> stamped_unique (FuseProtoSendLookup K errno p1 c1) = Some (ucast p1))
       \<and> (Forget_ForgetList c1 \<noteq> []
           \<longrightarrow> stamped_unique (FuseProtoFillForget K p1 c1) = Some (ucast p1))
       \<and> (wf_consts K
           \<longrightarrow> stamped_unique (FuseProtoFillBatchForget K p1 c1) = Some (ucast p1))
       \<and> stamped_unique (FuseProtoSendGetattr K errno p1 c1) = Some (ucast p1)
       \<and> stamped_unique (FuseProtoSendOpen K errno p1 c1) = Some (ucast p1)
       \<and> stamped_unique (FuseProtoSendOpendir K errno p1 c1) = Some (ucast p1)
       \<and> (\<forall>f \<in> set (fill_routines K errno). \<forall>g \<in> set (fill_routines K errno). \<forall>u1 u2.
             stamped_unique (f p1 c1) = Some u1 \<and> stamped_unique (g p2 c2) = Some u2
             \<longrightarrow> u1 = ucast p1 \<and> u2 = ucast p2 \<and> u1 \<noteq> u2)"
proof -
  have d: "(ucast p1 :: UINT64) \<noteq> ucast p2"
    using ucast_ptr_inj [OF assms(1)] assms(5) by blast
  have pair: "\<forall>f \<in> set (fill_routines K errno). \<forall>g \<in> set (fill_routines K errno). \<forall>u1 u2.
             stamped_unique (f p1 c1) = Some u1 \<and> stamped_unique (g p2 c2) = Some u2
             \<longrightarrow> u1 = ucast p1 \<and> u2 = ucast p2 \<and> u1 \<noteq> u2"
    using stamped_Some_ucast [OF _ assms(2)] stamped_Some_ucast [OF _ assms(4)] d by blast
  show ?thesis
    using stamped_total_Init [OF assms(2,3)] stamped_total_Lookup [OF assms(2,3)]
      stamped_total_FillForget [OF assms(3)] stamped_total_FillBatchForget [OF _ assms(3)]
      stamped_total_Getattr [OF assms(2,3)] stamped_total_Open [OF assms(2,3)]
      stamped_total_Opendir [OF assms(2,3)] pair
    by blast
qed

theorem unique_is_context_identity_witness:
  "LENGTH(64) \<le> 64 \<and> CoroState sample_context = CoroEntry
   \<and> FuseRequest sample_context = Some zero_request
   \<and> (0xFFFFA00012345680 :: 64 word) \<noteq> 0xFFFFA00012345A00
   \<and> wf_consts fuse_consts \<and> Forget_ForgetList sample_context \<noteq> []
   \<and> stamped_unique (FuseProtoSendInit fuse_consts sample_errno
         (0xFFFFA00012345680 :: 64 word) sample_context) = Some 0xFFFFA00012345680
   \<and> stamped_unique (FuseProtoSendLookup fuse_consts sample_errno
         (0xFFFFA00012345680 :: 64 word) sample_context) = Some 0xFFFFA00012345680
   \<and> stamped_unique (FuseProtoFillForget fuse_consts
         (0xFFFFA00012345680 :: 64 word) sample_context) = Some 0xFFFFA00012345680
   \<and> stamped_unique (FuseProtoFillBatchForget fuse_consts
         (0xFFFFA00012345680 :: 64 word) sample_context) = Some 0xFFFFA00012345680
   \<and> stamped_unique (FuseProtoSendGetattr fuse_consts sample_errno
         (0xFFFFA00012345680 :: 64 word) sample_context) = Some 0xFFFFA00012345680
   \<and> stamped_unique (FuseProtoSendOpen fuse_consts sample_errno
         (0xFFFFA00012345680 :: 64 word) sample_context) = Some 0xFFFFA00012345680
   \<and> stamped_unique (FuseProtoSendOpendir fuse_consts sample_errno
         (0xFFFFA00012345680 :: 64 word) sample_context) = Some 0xFFFFA00012345680
   \<and> stamped_unique (FuseProtoSendGetattr fuse_consts sample_errno
         (0xFFFFA00012345A00 :: 64 word) sample_context) = Some 0xFFFFA00012345A00"
proof -
  have l: "LENGTH(64) \<le> 64" by simp
  have e: "CoroState sample_context = CoroEntry" by (simp add: sample_context_def)
  have r: "FuseRequest sample_context = Some zero_request" by (simp add: sample_context_def)
  have d: "(0xFFFFA00012345680 :: 64 word) \<noteq> 0xFFFFA00012345A00" by simp
  have d': "(0xFFFFA00012345A00 :: 64 word) \<noteq> 0xFFFFA00012345680" by simp
  have n: "Length (Lookup_Name sample_context) \<le> length (Buffer (Lookup_Name sample_context))"
    "REQ_SIZE_lookup fuse_consts + Length (Lookup_Name sample_context) + 1 \<le> REQ_SIZEMIN fuse_consts"
    "REQ_SIZEMIN fuse_consts < 2 ^ 32"
    by (simp_all add: sample_context_def fuse_consts_def)
  have f: "Forget_ForgetList sample_context \<noteq> []" by (simp add: sample_context_def)
  note T1 = unique_is_context_identity [OF l e r e d, of fuse_consts sample_errno]
  note T2 = unique_is_context_identity [OF l e r e d', of fuse_consts sample_errno]
  from T1 n f wf_fuse_consts have a:
    "stamped_unique (FuseProtoSendInit fuse_consts sample_errno
         (0xFFFFA00012345680 :: 64 word) sample_context) = Some (ucast (0xFFFFA00012345680 :: 64 word))"
    "stamped_unique (FuseProtoSendLookup fuse_consts sample_errno
         (0xFFFFA00012345680 :: 64 word) sample_context) = Some (ucast (0xFFFFA00012345680 :: 64 word))"
    "stamped_unique (FuseProtoFillForget fuse_consts
         (0xFFFFA00012345680 :: 64 word) sample_context) = Some (ucast (0xFFFFA00012345680 :: 64 word))"
    "stamped_unique (FuseProtoFillBatchForget fuse_consts
         (0xFFFFA00012345680 :: 64 word) sample_context) = Some (ucast (0xFFFFA00012345680 :: 64 word))"
    "stamped_unique (FuseProtoSendGetattr fuse_consts sample_errno
         (0xFFFFA00012345680 :: 64 word) sample_context) = Some (ucast (0xFFFFA00012345680 :: 64 word))"
    "stamped_unique (FuseProtoSendOpen fuse_consts sample_errno
         (0xFFFFA00012345680 :: 64 word) sample_context) = Some (ucast (0xFFFFA00012345680 :: 64 word))"
    "stamped_unique (FuseProtoSendOpendir fuse_consts sample_errno
         (0xFFFFA00012345680 :: 64 word) sample_context) = Some (ucast (0xFFFFA00012345680 :: 64 word))"
    by blast+
  from T2 have b:
    "stamped_unique (FuseProtoSendGetattr fuse_consts sample_errno
         (0xFFFFA00012345A00 :: 64 word) sample_context) = Some (ucast (0xFFFFA00012345A00 :: 64 word))"
    by blast
  show ?thesis
    using a b l e r d f wf_fuse_consts by simp
qed

end
